theory Spec2Isabelle
  imports Complex_Main "HOL-Library.AList"
begin

section \<open>Scene units and the scene manager\<close>

text \<open>
  A shallow embedding of \<^verbatim>\<open>src/scene/sceneManager.js\<close> (class SceneManager) and of the two
  scene classes Scene1 and Scene2.

  Conventions of the embedding.
  \<^item> JavaScript numbers are modelled as \<^typ>\<open>real\<close>, with exact arithmetic.
    \<^verbatim>\<open>Date.now()\<close> is a parameter of the functions that read the clock; \<^verbatim>\<open>Math.random()\<close>
    and the orientation computed by \<^verbatim>\<open>lookAt\<close> are parameters of scene construction. The
    particle positions live in a \<^verbatim>\<open>Float32Array\<close>: every store into it rounds to a 32-bit
    float, and that rounding is a parameter too (\<open>float32\<close>), about which nothing is
    assumed.
  \<^item> An exception is a value: every operation returns the exception thrown, if any,
    together with the state it leaves behind.
  \<^item> Scene units are objects shared by reference, so they live in a store
    (\<open>units\<close>); a reference that is not allocated stands for \<^verbatim>\<open>undefined\<close>. (The manager
    treats \<^verbatim>\<open>null\<close> like \<^verbatim>\<open>undefined\<close> everywhere but in an assignment under the name
    \<^verbatim>\<open>__proto__\<close>; \<^verbatim>\<open>null\<close> is not among the arguments modelled.)
  \<^item> The registry \<^verbatim>\<open>this.scenes\<close> is a plain JavaScript object. Its own properties are an
    association list from names to references, in insertion order (JavaScript lists
    integer-like keys first; no result here depends on the order). A read
    \<^verbatim>\<open>this.scenes[name]\<close> of a name that is not an own property goes on through the
    prototype chain, so the model keeps the prototype as well: it is \<^verbatim>\<open>Object.prototype\<close>
    until an assignment \<^verbatim>\<open>this.scenes['__proto__'] = unit\<close> makes it that unit.
  \<^item> The calls issued to the camera and lighting services are recorded in \<open>calls\<close>;
    \<^verbatim>\<open>console.warn\<close> and \<^verbatim>\<open>console.error\<close> output is recorded in \<open>console\<close>
    (\<^verbatim>\<open>console.log\<close> output is not recorded).
  \<^item> Of a 3D object the model keeps its identity, its name, its \<^verbatim>\<open>userData\<close> flags and the
    attributes the scene code reads or writes after construction (position, rotation,
    opacity, emissive colour, attached light, particle positions). Geometry parameters,
    material constants, the scene background and the release of GPU resources by
    \<^verbatim>\<open>geometry.dispose()\<close>/\<^verbatim>\<open>material.dispose()\<close> have no effect on that state.
    The light objects themselves belong to the lighting service and are not listed among
    a scene's children.
\<close>

subsection \<open>Errors and recorded effects\<close>

datatype error = Error string | TypeError

datatype entry = ConsoleWarn string | ConsoleError string error

datatype call =
    SetPosition real real real
  | SetTarget real real real
  | ApplyPreset string
  | AddToScene

definition quote :: "string \<Rightarrow> string" where
  "quote s = CHR 0x27 # s @ [CHR 0x27]"

subsection \<open>3D objects\<close>

type_synonym vec3 = "real \<times> real \<times> real"

text \<open>A child mesh of a group: unnamed, never listed in \<^verbatim>\<open>this.objects\<close>.\<close>

record kid =
  kposition :: vec3
  krotation :: vec3
  opacity :: real
  emissive :: vec3
  light :: "(real \<times> vec3) option"

record object3d =
  oid :: nat
  oname :: string
  isLoadedModel :: bool
  modelType :: "string option"
  position :: vec3
  rotation :: vec3
  children :: "kid list"
  points :: "real list"

text \<open>
  The parameters supplied by the environment: the results of the calls of
  \<^verbatim>\<open>Math.random()\<close>, the orientation computed by \<^verbatim>\<open>lookAt\<close>, and the number a
  \<^verbatim>\<open>Float32Array\<close> holds after a number has been stored into it.
\<close>

record env =
  random :: "nat \<Rightarrow> real"
  lookAt :: "vec3 \<Rightarrow> vec3 \<Rightarrow> vec3"
  float32 :: "real \<Rightarrow> real"

definition mesh :: "nat \<Rightarrow> string \<Rightarrow> vec3 \<Rightarrow> vec3 \<Rightarrow> object3d" where
  "mesh i n p r =
     \<lparr>oid = i, oname = n, isLoadedModel = False, modelType = None,
      position = p, rotation = r, children = [], points = []\<rparr>"

definition group :: "nat \<Rightarrow> string \<Rightarrow> kid list \<Rightarrow> object3d" where
  "group i n ks = (mesh i n (0, 0, 0) (0, 0, 0))\<lparr>children := ks\<rparr>"

definition kidMesh :: "vec3 \<Rightarrow> vec3 \<Rightarrow> real \<Rightarrow> vec3 \<Rightarrow> kid" where
  "kidMesh p r op em =
     \<lparr>kposition = p, krotation = r, opacity = op, emissive = em, light = None\<rparr>"

subsection \<open>Scene units (classes Scene1 and Scene2)\<close>

datatype sceneClass = Scene1 | Scene2

text \<open>
  A node of the scene graph is the identity and the name of a child of \<^verbatim>\<open>this.scene\<close>;
  \<open>scene = None\<close> is \<^verbatim>\<open>this.scene === null\<close>.
\<close>

type_synonym node = "nat \<times> string"

record sceneUnit =
  cls :: sceneClass
  scene :: "node list option"
  objects :: "object3d list"
  isInitialized :: bool
  animationMixers :: "nat list"

text \<open>The constructors: \<^verbatim>\<open>new Scene1()\<close>, \<^verbatim>\<open>new Scene2()\<close>.\<close>

definition newUnit :: "sceneClass \<Rightarrow> sceneUnit" where
  "newUnit c =
     \<lparr>cls = c, scene = None, objects = [], isInitialized = False, animationMixers = []\<rparr>"

text \<open>\<^verbatim>\<open>this.scene.add(o)\<close> and \<^verbatim>\<open>this.scene.remove(o)\<close> on a scene that is not null.\<close>

definition scene_add :: "object3d \<Rightarrow> sceneUnit \<Rightarrow> sceneUnit" where
  "scene_add ob u = u\<lparr>scene := map_option (\<lambda>g. g @ [(oid ob, oname ob)]) (scene u)\<rparr>"

fun remove_child :: "nat \<Rightarrow> node list \<Rightarrow> node list" where
  "remove_child i [] = []"
| "remove_child i (n # ns) = (if fst n = i then ns else n # remove_child i ns)"

definition scene_remove :: "object3d \<Rightarrow> sceneUnit \<Rightarrow> sceneUnit" where
  "scene_remove ob u = u\<lparr>scene := map_option (remove_child (oid ob)) (scene u)\<rparr>"

text \<open>\<^verbatim>\<open>this.scene.add(o); this.objects.push(o);\<close>\<close>

definition put :: "object3d \<Rightarrow> sceneUnit \<Rightarrow> sceneUnit" where
  "put ob u = (scene_add ob u)\<lparr>objects := objects u @ [ob]\<rparr>"

paragraph \<open>Scene1.init\<close>

definition createGround :: "nat \<Rightarrow> sceneUnit \<Rightarrow> sceneUnit" where
  "createGround c u = put (mesh c ''Ground'' (0, 0, 0) (- pi / 2, 0, 0)) u"

definition createSampleGeometry :: "nat \<Rightarrow> sceneUnit \<Rightarrow> sceneUnit" where
  "createSampleGeometry c u =
     put (mesh (c + 4) ''Cone'' (- 3, 1.25, - 3) (0, 0, 0))
       (put (mesh (c + 3) ''Torus'' (0, 2, - 3) (0, 0, 0))
         (put (mesh (c + 2) ''Cylinder'' (3, 1.5, 0) (0, 0, 0))
           (put (mesh (c + 1) ''Sphere'' (0, 1.2, 0) (0, 0, 0))
             (put (mesh c ''Cube'' (- 3, 1, 0) (0, 0, 0)) u))))"

definition addAxesHelper :: "nat \<Rightarrow> sceneUnit \<Rightarrow> sceneUnit" where
  "addAxesHelper c u = scene_add (mesh c ''AxesHelper'' (0, 0, 0) (0, 0, 0)) u"

definition addGridHelper :: "nat \<Rightarrow> sceneUnit \<Rightarrow> sceneUnit" where
  "addGridHelper c u = scene_add (mesh c ''GridHelper'' (0, 0, 0) (0, 0, 0)) u"

text \<open>
  The initialisers take the next free object identity and return the unit, the next free
  identity and the calls made to the lighting service. \<open>lm\<close> says whether the
  \<^verbatim>\<open>lightsManager\<close> argument is non-null.
\<close>

definition Scene1_init :: "bool \<Rightarrow> nat \<Rightarrow> sceneUnit \<Rightarrow> sceneUnit \<times> nat \<times> call list" where
  "Scene1_init lm c u =
     ((addGridHelper (c + 7)
        (addAxesHelper (c + 6)
          (createSampleGeometry (c + 1)
            (createGround c (u\<lparr>scene := Some []\<rparr>)))))\<lparr>isInitialized := True\<rparr>,
      c + 8,
      if lm then [AddToScene] else [])"

paragraph \<open>Scene2.init\<close>

definition createWalls :: "nat \<Rightarrow> sceneUnit \<Rightarrow> sceneUnit" where
  "createWalls c u =
     put (mesh (c + 3) ''RightWall'' (30 / 2, 8 / 2, 0) (0, 0, 0))
       (put (mesh (c + 2) ''LeftWall'' (- 30 / 2, 8 / 2, 0) (0, 0, 0))
         (put (mesh (c + 1) ''BackWall'' (0, 8 / 2, 30 / 2) (0, 0, 0))
           (put (mesh c ''FrontWall'' (0, 8 / 2, - 30 / 2) (0, 0, 0)) u)))"

definition createEnvironment :: "nat \<Rightarrow> sceneUnit \<Rightarrow> sceneUnit" where
  "createEnvironment c u =
     createWalls (c + 1) (put (mesh c ''Floor'' (0, 0, 0) (- pi / 2, 0, 0)) u)"

text \<open>
  The k-th call of \<^verbatim>\<open>Math.random()\<close> during Scene2.init is \<open>random e k\<close>: five calls per
  crystal (height, hue, x, z, rotation), four per orb (hue, x, y, z), then three per
  particle.
\<close>

definition crystal :: "env \<Rightarrow> nat \<Rightarrow> kid" where
  "crystal e i =
     (let height = 2 + random e (5 * i) * 3
      in kidMesh ((random e (5 * i + 2) - 0.5) * 4, height / 2,
                  - 8 + (random e (5 * i + 3) - 0.5) * 4)
           (0, random e (5 * i + 4) * pi * 2, 0)
           0.8
           (0, 0, 0))"

definition createCrystalFormation :: "env \<Rightarrow> nat \<Rightarrow> sceneUnit \<Rightarrow> sceneUnit" where
  "createCrystalFormation e c u =
     put (group c ''CrystalFormation'' (map (crystal e) [0..<5])) u"

definition platform :: "nat \<Rightarrow> kid" where
  "platform i = kidMesh (8 + real i * 3, 2 + real i * 1.5, 0) (0, 0, 0) 1 (0, 0, 0)"

definition createFloatingPlatforms :: "nat \<Rightarrow> sceneUnit \<Rightarrow> sceneUnit" where
  "createFloatingPlatforms c u =
     put (group c ''FloatingPlatforms'' (map platform [0..<3])) u"

definition segment :: "env \<Rightarrow> nat \<Rightarrow> kid" where
  "segment e i =
     (let angle = (real i / 20) * pi * 4;
          y = (real i / 20) * 8;
          p = (cos angle * 3, y, sin angle * 3 + 8)
      in kidMesh p (lookAt e p (0, y, 8)) 1 (real i / 20, 1, 0.1))"

definition createSpiralStructure :: "env \<Rightarrow> nat \<Rightarrow> sceneUnit \<Rightarrow> sceneUnit" where
  "createSpiralStructure e c u =
     put (group c ''SpiralStructure'' (map (segment e) [0..<20])) u"

definition orb :: "env \<Rightarrow> nat \<Rightarrow> kid" where
  "orb e i =
     (let em = (random e (25 + 4 * i), 1, 0.3)
      in (kidMesh ((random e (25 + 4 * i + 1) - 0.5) * 20,
                   1 + random e (25 + 4 * i + 2) * 4,
                   (random e (25 + 4 * i + 3) - 0.5) * 20)
            (0, 0, 0) 0.9 em)\<lparr>light := Some (0.5, em)\<rparr>)"

definition createGlowingOrbs :: "env \<Rightarrow> nat \<Rightarrow> sceneUnit \<Rightarrow> sceneUnit" where
  "createGlowingOrbs e c u = put (group c ''GlowingOrbs'' (map (orb e) [0..<6])) u"

definition createAdvancedGeometry :: "env \<Rightarrow> nat \<Rightarrow> sceneUnit \<Rightarrow> sceneUnit" where
  "createAdvancedGeometry e c u =
     createGlowingOrbs e (c + 3)
       (createSpiralStructure e (c + 2)
         (createFloatingPlatforms (c + 1)
           (createCrystalFormation e c u)))"

definition particlePosition :: "env \<Rightarrow> nat \<Rightarrow> real" where
  "particlePosition e j =
     float32 e (if j mod 3 = 1 then random e (49 + j) * 20 else (random e (49 + j) - 0.5) * 50)"

definition createParticleSystem :: "env \<Rightarrow> nat \<Rightarrow> sceneUnit \<Rightarrow> sceneUnit" where
  "createParticleSystem e c u =
     put ((mesh c ''Particles'' (0, 0, 0) (0, 0, 0))
            \<lparr>points := map (particlePosition e) [0..<100 * 3]\<rparr>) u"

definition Scene2_init ::
  "bool \<Rightarrow> env \<Rightarrow> nat \<Rightarrow> sceneUnit \<Rightarrow> sceneUnit \<times> nat \<times> call list" where
  "Scene2_init lm e c u =
     ((addAxesHelper (c + 10)
        (createParticleSystem e (c + 9)
          (createAdvancedGeometry e (c + 5)
            (createEnvironment c (u\<lparr>scene := Some []\<rparr>)))))\<lparr>isInitialized := True\<rparr>,
      c + 11,
      if lm then [AddToScene, ApplyPreset ''night''] else [])"

definition unit_init ::
  "bool \<Rightarrow> env \<Rightarrow> nat \<Rightarrow> sceneUnit \<Rightarrow> sceneUnit \<times> nat \<times> call list" where
  "unit_init lm e c u =
     (case cls u of Scene1 \<Rightarrow> Scene1_init lm c u | Scene2 \<Rightarrow> Scene2_init lm e c u)"

paragraph \<open>Loaded models\<close>

definition getScene :: "sceneUnit \<Rightarrow> node list option" where
  "getScene u = scene u"

definition getModelCount :: "sceneUnit \<Rightarrow> nat" where
  "getModelCount u = length (filter isLoadedModel (objects u))"

definition modelName :: "sceneClass \<Rightarrow> string \<Rightarrow> string" where
  "modelName c mt =
     (case c of
        Scene1 \<Rightarrow> (if mt = ''cube'' then ''LoadedCube'' else ''LoadedSphere'')
      | Scene2 \<Rightarrow> (if mt = ''cube'' then ''LoadedAdvancedCube'' else ''LoadedAdvancedSphere''))"

definition modelPosition :: "sceneClass \<Rightarrow> nat \<Rightarrow> vec3" where
  "modelPosition c n =
     (case c of
        Scene1 \<Rightarrow> (real n * 3, 0, 3)
      | Scene2 \<Rightarrow> (real n * 4 - 10, 2, - 5))"

text \<open>
  \<open>loadModel c mt u\<close>: \<open>c\<close> is the next free object identity. The result is the
  exception thrown (if any), the unit, the next free identity and the console output.
  With \<^verbatim>\<open>this.scene === null\<close> the call \<^verbatim>\<open>this.scene.add(model)\<close> throws a TypeError, which
  the method logs and rethrows.
\<close>

definition loadModel ::
  "nat \<Rightarrow> string \<Rightarrow> sceneUnit \<Rightarrow> error option \<times> sceneUnit \<times> nat \<times> entry list" where
  "loadModel c mt u =
     (if mt = ''cube'' \<or> mt = ''sphere'' then
        (let existingObjects = filter isLoadedModel (objects u);
             model = (mesh c (modelName (cls u) mt)
                        (modelPosition (cls u) (length existingObjects)) (0, 0, 0))
                      \<lparr>isLoadedModel := True, modelType := Some mt\<rparr>
         in case scene u of
              None \<Rightarrow>
                (Some TypeError, u, c + 1,
                 [ConsoleError (''Failed to load model '' @ quote mt @ '':'') TypeError])
            | Some g \<Rightarrow> (None, put model u, c + 1, []))
      else (None, u, c, [ConsoleWarn (''Unknown model type: '' @ mt)]))"

fun findIndex :: "('a \<Rightarrow> bool) \<Rightarrow> 'a list \<Rightarrow> nat option" where
  "findIndex P [] = None"
| "findIndex P (x # xs) =
     (if P x then Some 0 else map_option Suc (findIndex P xs))"

definition removeModel :: "string \<Rightarrow> sceneUnit \<Rightarrow> error option \<times> sceneUnit" where
  "removeModel mt u =
     (case findIndex (\<lambda>ob. isLoadedModel ob \<and> modelType ob = Some mt) (objects u) of
        None \<Rightarrow> (None, u)
      | Some modelIndex \<Rightarrow>
          (case scene u of
             None \<Rightarrow> (Some TypeError, u)
           | Some g \<Rightarrow>
               (None,
                (scene_remove (objects u ! modelIndex) u)
                  \<lparr>objects := take modelIndex (objects u) @ drop (Suc modelIndex) (objects u)\<rparr>)))"

definition clearModels :: "sceneUnit \<Rightarrow> error option \<times> sceneUnit" where
  "clearModels u =
     (let loadedModels = filter isLoadedModel (objects u)
      in if loadedModels \<noteq> [] \<and> scene u = None then (Some TypeError, u)
         else (None,
               (fold scene_remove loadedModels u)
                 \<lparr>objects := filter (\<lambda>ob. \<not> isLoadedModel ob) (objects u)\<rparr>))"

paragraph \<open>Animation\<close>

text \<open>
  \<^verbatim>\<open>scene.getObjectByName(name)\<close>: the first child with that name. The names searched for
  are never those of a light or of a child of a group (a group's children are unnamed).
\<close>

definition getObjectByName :: "string \<Rightarrow> node list \<Rightarrow> nat option" where
  "getObjectByName name g = map_option fst (find (\<lambda>n. snd n = name) g)"

text \<open>\<^verbatim>\<open>const x = this.scene.getObjectByName(name); if (x) { f(x) }\<close>\<close>

definition withObject ::
  "string \<Rightarrow> (object3d \<Rightarrow> object3d) \<Rightarrow> node list \<Rightarrow> sceneUnit \<Rightarrow> sceneUnit" where
  "withObject name f g u =
     (case getObjectByName name g of
        None \<Rightarrow> u
      | Some i \<Rightarrow> u\<lparr>objects := map (\<lambda>ob. if oid ob = i then f ob else ob) (objects u)\<rparr>)"

definition addRotation :: "vec3 \<Rightarrow> vec3 \<Rightarrow> vec3" where
  "addRotation d r = (case d of (dx, dy, dz) \<Rightarrow> case r of (x, y, z) \<Rightarrow> (x + dx, y + dy, z + dz))"

definition setY :: "real \<Rightarrow> vec3 \<Rightarrow> vec3" where
  "setY v p = (case p of (x, y, z) \<Rightarrow> (x, v, z))"

definition setZ :: "real \<Rightarrow> vec3 \<Rightarrow> vec3" where
  "setZ v p = (case p of (x, y, z) \<Rightarrow> (x, y, v))"

definition getY :: "vec3 \<Rightarrow> real" where
  "getY p = (case p of (x, y, z) \<Rightarrow> y)"

text \<open>\<open>now\<close> is the value of \<^verbatim>\<open>Date.now()\<close>; \<open>g\<close> is the scene graph (not null).\<close>

definition Scene1_animateObjects :: "real \<Rightarrow> node list \<Rightarrow> sceneUnit \<Rightarrow> sceneUnit" where
  "Scene1_animateObjects now g u =
     (let time = now * 0.001
      in withObject ''Cone'' (\<lambda>ob. ob\<lparr>rotation := setZ (sin time * 0.1) (rotation ob)\<rparr>) g
          (withObject ''Cylinder'' (\<lambda>ob. ob\<lparr>rotation := addRotation (0, 0.015, 0) (rotation ob)\<rparr>) g
            (withObject ''Torus'' (\<lambda>ob. ob\<lparr>rotation := addRotation (0.02, 0.01, 0) (rotation ob)\<rparr>) g
              (withObject ''Sphere'' (\<lambda>ob. ob\<lparr>position := setY (1.2 + sin (time * 2) * 0.3) (position ob)\<rparr>) g
                (withObject ''Cube'' (\<lambda>ob. ob\<lparr>rotation := addRotation (0.01, 0.01, 0) (rotation ob)\<rparr>) g u)))))"

text \<open>\<^verbatim>\<open>x % 1\<close> on JavaScript numbers: the remainder has the sign of the dividend.\<close>

definition rem1 :: "real \<Rightarrow> real" where
  "rem1 x = x - real_of_int (if 0 \<le> x then \<lfloor>x\<rfloor> else \<lceil>x\<rceil>)"

text \<open>\<^verbatim>\<open>group.children.forEach((child, index) => ...)\<close>\<close>

definition forEachChild :: "(nat \<Rightarrow> kid \<Rightarrow> kid) \<Rightarrow> object3d \<Rightarrow> object3d" where
  "forEachChild f ob = ob\<lparr>children := map (\<lambda>(index, k). f index k) (enumerate 0 (children ob))\<rparr>"

definition animatePlatform :: "real \<Rightarrow> nat \<Rightarrow> kid \<Rightarrow> kid" where
  "animatePlatform time index k =
     k\<lparr>kposition := setY (2 + real index * 1.5 + sin (time + real index) * 0.5) (kposition k),
       krotation := addRotation (0, 0.01, 0) (krotation k)\<rparr>"

definition animateOrb :: "real \<Rightarrow> nat \<Rightarrow> kid \<Rightarrow> kid" where
  "animateOrb time index k =
     (let intensity = 0.3 + sin (time * 3 + real index) * 0.2;
          colour = (rem1 (time * 0.1 + real index * 0.1), 1, intensity)
      in k\<lparr>kposition := setY (getY (kposition k) + sin (time * 2 + real index) * 0.01) (kposition k),
           krotation := addRotation (0, 0.02, 0) (krotation k),
           emissive := colour,
           light := map_option (\<lambda>l. (intensity, colour)) (light k)\<rparr>)"

definition animateCrystal :: "real \<Rightarrow> nat \<Rightarrow> kid \<Rightarrow> kid" where
  "animateCrystal time index k =
     k\<lparr>krotation := addRotation (0, 0.01, 0) (krotation k),
       opacity := 0.8 + sin (time * 2 + real index) * 0.2\<rparr>"

definition Scene2_animateObjects :: "real \<Rightarrow> node list \<Rightarrow> sceneUnit \<Rightarrow> sceneUnit" where
  "Scene2_animateObjects now g u =
     (let time = now * 0.001
      in withObject ''CrystalFormation'' (forEachChild (animateCrystal time)) g
          (withObject ''GlowingOrbs'' (forEachChild (animateOrb time)) g
            (withObject ''FloatingPlatforms'' (forEachChild (animatePlatform time)) g
              (withObject ''SpiralStructure''
                 (\<lambda>ob. ob\<lparr>rotation := addRotation (0, 0.005, 0) (rotation ob)\<rparr>) g u))))"

text \<open>
  \<^verbatim>\<open>positions[i] += 0.01; if (positions[i] > 20) positions[i] = 0;\<close> for the heights
  (\<^verbatim>\<open>i = 1, 4, 7, ...\<close>): the sum is stored into the \<^verbatim>\<open>Float32Array\<close>, and the test reads
  the stored number.
\<close>

definition moveParticle :: "env \<Rightarrow> nat \<times> real \<Rightarrow> real" where
  "moveParticle e ip =
     (case ip of (i, p) \<Rightarrow>
        if i mod 3 = 1
        then (let stored = float32 e (p + 0.01) in if stored > 20 then float32 e 0 else stored)
        else p)"

definition updateParticles :: "env \<Rightarrow> node list \<Rightarrow> sceneUnit \<Rightarrow> sceneUnit" where
  "updateParticles e g u =
     withObject ''Particles''
       (\<lambda>ob. ob\<lparr>rotation := addRotation (0, 0.001, 0) (rotation ob),
                points := map (moveParticle e) (enumerate 0 (points ob))\<rparr>) g u"

text \<open>
  \<open>unit_update e now u\<close> is \<^verbatim>\<open>update(deltaTime)\<close> run when the clock reads \<open>now\<close>; the
  argument \<^verbatim>\<open>deltaTime\<close> is never read by the source. On an initialised unit whose scene
  is null, \<^verbatim>\<open>this.scene.getObjectByName\<close> throws.
\<close>

definition unit_update :: "env \<Rightarrow> real \<Rightarrow> sceneUnit \<Rightarrow> error option \<times> sceneUnit" where
  "unit_update e now u =
     (if \<not> isInitialized u then (None, u)
      else case scene u of
             None \<Rightarrow> (Some TypeError, u)
           | Some g \<Rightarrow>
               (case cls u of
                  Scene1 \<Rightarrow> (None, Scene1_animateObjects now g u)
                | Scene2 \<Rightarrow> (None, updateParticles e g (Scene2_animateObjects now g u))))"

definition unit_dispose :: "sceneUnit \<Rightarrow> sceneUnit" where
  "unit_dispose u =
     (case scene u of
        None \<Rightarrow> u
      | Some g \<Rightarrow>
          (case cls u of
             Scene1 \<Rightarrow> u\<lparr>objects := [], scene := None, isInitialized := False\<rparr>
           | Scene2 \<Rightarrow>
               u\<lparr>objects := [], animationMixers := [], scene := None, isInitialized := False\<rparr>))"

subsection \<open>The scene manager (class SceneManager)\<close>

text \<open>
  The fields of the manager, followed by the store of scene units, the allocation
  counters and the recorded effects. \<open>scenes\<close> holds the own properties of the registry
  object and \<open>scenesProto\<close> its prototype: \<open>None\<close> is \<^verbatim>\<open>Object.prototype\<close>, \<open>Some i\<close> is
  the scene unit with reference \<open>i\<close>. \<open>mgrInitialized\<close> is the manager's
  \<^verbatim>\<open>isInitialized\<close>; \<open>cameraManager\<close>, \<open>lightsManager\<close> and \<open>modelLoader\<close> say whether the
  field holds a service (is not null).
\<close>

record world =
  scenes :: "(string \<times> nat) list"
  scenesProto :: "nat option"
  currentSceneName :: "string option"
  mgrInitialized :: bool
  cameraManager :: bool
  lightsManager :: bool
  modelLoader :: bool
  units :: "nat \<rightharpoonup> sceneUnit"
  nextUnit :: nat
  nextObject :: nat
  calls :: "call list"
  console :: "entry list"

type_synonym outcome = "error option \<times> world"

text \<open>\<^verbatim>\<open>new SceneManager()\<close> in an empty store.\<close>

definition newSceneManager :: world where
  "newSceneManager =
     \<lparr>scenes = [], scenesProto = None, currentSceneName = None, mgrInitialized = False,
      cameraManager = False, lightsManager = False, modelLoader = False,
      units = Map.empty, nextUnit = 0, nextObject = 0, calls = [], console = []\<rparr>"

text \<open>\<^verbatim>\<open>new Scene1()\<close> or \<^verbatim>\<open>new Scene2()\<close>, run by the caller: the reference and the new store.\<close>

definition newScene :: "sceneClass \<Rightarrow> world \<Rightarrow> nat \<times> world" where
  "newScene c w =
     (nextUnit w, w\<lparr>units := (units w)(nextUnit w \<mapsto> newUnit c), nextUnit := Suc (nextUnit w)\<rparr>)"

definition warn :: "string \<Rightarrow> world \<Rightarrow> world" where
  "warn msg w = w\<lparr>console := console w @ [ConsoleWarn msg]\<rparr>"

text \<open>Sequencing of statements that may throw.\<close>

definition andThen :: "outcome \<Rightarrow> (world \<Rightarrow> outcome) \<Rightarrow> outcome" where
  "andThen r f = (case r of (None, w) \<Rightarrow> f w | (Some e, w) \<Rightarrow> (Some e, w))"

text \<open>\<^verbatim>\<open>try { ... } catch (error) { console.error(msg, error); throw error; }\<close>\<close>

definition rethrow :: "string \<Rightarrow> outcome \<Rightarrow> outcome" where
  "rethrow msg r =
     (case r of
        (None, w) \<Rightarrow> (None, w)
      | (Some e, w) \<Rightarrow> (Some e, w\<lparr>console := console w @ [ConsoleError msg e]\<rparr>))"

paragraph \<open>The registry object\<close>

text \<open>
  The value of a property read, as far as the manager tells values apart: a falsy value
  (\<^verbatim>\<open>undefined\<close>, \<^verbatim>\<open>null\<close>, \<^verbatim>\<open>false\<close>), a scene unit (its reference and its state), or
  another truthy value: a function, an array, a \<^verbatim>\<open>THREE.Scene\<close>, \<^verbatim>\<open>true\<close> or
  \<^verbatim>\<open>Object.prototype\<close> itself. None of the latter has a property \<^verbatim>\<open>getScene\<close>,
  \<^verbatim>\<open>getModelCount\<close>, \<^verbatim>\<open>loadModel\<close>, \<^verbatim>\<open>removeModel\<close>, \<^verbatim>\<open>clearModels\<close> or \<^verbatim>\<open>update\<close>, and
  none has a \<^verbatim>\<open>dispose\<close> that touches the manager or a scene unit.
\<close>

datatype jsvalue = Falsy | UnitObject nat sceneUnit | OtherTruthy

text \<open>
  The properties of \<^verbatim>\<open>Object.prototype\<close> (ECMAScript, with the legacy accessors every
  browser provides), all of them functions. \<^verbatim>\<open>__proto__\<close>, an accessor, is treated apart.
\<close>

definition objectPrototypeNames :: "string list" where
  "objectPrototypeNames =
     [''constructor'', ''hasOwnProperty'', ''isPrototypeOf'', ''propertyIsEnumerable'',
      ''toLocaleString'', ''toString'', ''valueOf'', ''__defineGetter__'',
      ''__defineSetter__'', ''__lookupGetter__'', ''__lookupSetter__'']"

text \<open>The members of the two scene classes.\<close>

definition methodNames :: "sceneClass \<Rightarrow> string list" where
  "methodNames c =
     (case c of
        Scene1 \<Rightarrow>
          [''constructor'', ''init'', ''setupBackground'', ''createGround'',
           ''createSampleGeometry'', ''addAxesHelper'', ''addGridHelper'', ''loadModel'',
           ''createStyledCube'', ''createStyledSphere'', ''update'', ''animateObjects'',
           ''getScene'', ''getModelCount'', ''removeModel'', ''clearModels'', ''dispose'']
      | Scene2 \<Rightarrow>
          [''constructor'', ''init'', ''setupBackground'', ''createEnvironment'',
           ''createWalls'', ''createAdvancedGeometry'', ''createCrystalFormation'',
           ''createFloatingPlatforms'', ''createSpiralStructure'', ''createGlowingOrbs'',
           ''createParticleSystem'', ''addAxesHelper'', ''loadModel'', ''createAdvancedCube'',
           ''createAdvancedSphere'', ''update'', ''animateObjects'', ''updateParticles'',
           ''getScene'', ''getModelCount'', ''removeModel'', ''clearModels'', ''dispose''])"

text \<open>
  A property other than \<^verbatim>\<open>__proto__\<close> read through a scene unit: the unit's own fields
  first (\<^verbatim>\<open>animationMixers\<close> is a field of Scene2 only), then the methods of its class,
  then \<^verbatim>\<open>Object.prototype\<close>.
\<close>

definition unitProperty :: "sceneUnit \<Rightarrow> string \<Rightarrow> jsvalue" where
  "unitProperty u n =
     (if n = ''scene'' then (if scene u = None then Falsy else OtherTruthy)
      else if n = ''objects'' then OtherTruthy
      else if n = ''isInitialized'' then (if isInitialized u then OtherTruthy else Falsy)
      else if n = ''animationMixers'' \<and> cls u = Scene2 then OtherTruthy
      else if n \<in> set (methodNames (cls u)) \<or> n \<in> set objectPrototypeNames then OtherTruthy
      else Falsy)"

text \<open>The prototype of the registry object when it is a scene unit.\<close>

definition protoUnit :: "world \<Rightarrow> (nat \<times> sceneUnit) option" where
  "protoUnit w =
     (case scenesProto w of
        None \<Rightarrow> None
      | Some i \<Rightarrow> (case units w i of None \<Rightarrow> None | Some u \<Rightarrow> Some (i, u)))"

text \<open>
  \<^verbatim>\<open>this.scenes[name]\<close>: an own property if there is one, else what the prototype chain
  gives; \<^verbatim>\<open>__proto__\<close> reads the prototype itself.
\<close>

definition scenesGet :: "world \<Rightarrow> string \<Rightarrow> jsvalue" where
  "scenesGet w n =
     (case map_of (scenes w) n of
        Some i \<Rightarrow> (case units w i of None \<Rightarrow> Falsy | Some u \<Rightarrow> UnitObject i u)
      | None \<Rightarrow>
          (case protoUnit w of
             None \<Rightarrow>
               if n = ''__proto__'' \<or> n \<in> set objectPrototypeNames then OtherTruthy else Falsy
           | Some (i, u) \<Rightarrow> if n = ''__proto__'' then UnitObject i u else unitProperty u n))"

text \<open>
  \<^verbatim>\<open>this.scenes[name] = ref\<close>: an own property is created or overwritten, except that
  the name \<^verbatim>\<open>__proto__\<close> (when it is not an own property) reaches the inherited setter,
  which makes an object the new prototype and ignores \<^verbatim>\<open>undefined\<close>.
\<close>

definition scenesSet :: "string \<Rightarrow> nat \<Rightarrow> world \<Rightarrow> world" where
  "scenesSet n i w =
     (if n = ''__proto__'' \<and> map_of (scenes w) n = None
      then (if units w i = None then w else w\<lparr>scenesProto := Some i\<rparr>)
      else w\<lparr>scenes := AList.update n i (scenes w)\<rparr>)"

text \<open>\<^verbatim>\<open>delete this.scenes[name]\<close> removes an own property and nothing else.\<close>

definition scenesDelete :: "string \<Rightarrow> world \<Rightarrow> world" where
  "scenesDelete n w = w\<lparr>scenes := AList.delete n (scenes w)\<rparr>"

text \<open>\<^verbatim>\<open>this.scenes[name]\<close> when it is a scene unit: the reference and the unit.\<close>

definition lookupScene :: "world \<Rightarrow> string \<Rightarrow> (nat \<times> sceneUnit) option" where
  "lookupScene w n = (case scenesGet w n of UnitObject i u \<Rightarrow> Some (i, u) | _ \<Rightarrow> None)"

text \<open>
  \<^verbatim>\<open>Object.keys(this.scenes)\<close>, and \<^verbatim>\<open>this.scenes.hasOwnProperty(name)\<close>. The method
  \<^verbatim>\<open>hasOwnProperty\<close> is itself read from the registry: it is the inherited function unless
  a scene has been registered under that very name, and then the call is a \<^verbatim>\<open>TypeError\<close>.
\<close>

definition getAvailableScenes :: "world \<Rightarrow> string list" where
  "getAvailableScenes w = map fst (scenes w)"

definition hasScene :: "world \<Rightarrow> string \<Rightarrow> error + bool" where
  "hasScene w n =
     (if map_of (scenes w) ''hasOwnProperty'' \<noteq> None then Inl TypeError
      else Inr (n \<in> set (map fst (scenes w))))"

paragraph \<open>The active scene\<close>

text \<open>
  The guard \<^verbatim>\<open>!this.currentSceneName || !this.scenes[this.currentSceneName]\<close> holds exactly
  when \<open>currentValue\<close> is \<open>Falsy\<close>: no active name is set, or it is the empty string
  (which is falsy in JavaScript), or the registry gives a falsy value for it. This is the
  manager's own notion of "there is no active scene": \<^verbatim>\<open>getCurrentScene()\<close>,
  \<^verbatim>\<open>getCurrentSceneModelCount()\<close> and the model operations all start with this guard.
  \<open>currentUnit\<close> is the active scene unit, when the guard lets a scene unit through.
\<close>

definition currentValue :: "world \<Rightarrow> jsvalue" where
  "currentValue w =
     (case currentSceneName w of
        None \<Rightarrow> Falsy
      | Some n \<Rightarrow> (if n = [] then Falsy else scenesGet w n))"

definition currentUnit :: "world \<Rightarrow> (nat \<times> sceneUnit) option" where
  "currentUnit w = (case currentValue w of UnitObject i u \<Rightarrow> Some (i, u) | _ \<Rightarrow> None)"

text \<open>
  \<^verbatim>\<open>getCurrentScene()\<close> and \<^verbatim>\<open>getCurrentSceneModelCount()\<close> call a method of the value the
  guard lets through; on a value that is not a scene unit that is a \<^verbatim>\<open>TypeError\<close>.
\<close>

definition getCurrentScene :: "world \<Rightarrow> error + node list option" where
  "getCurrentScene w =
     (case currentValue w of
        Falsy \<Rightarrow> Inr None
      | UnitObject i u \<Rightarrow> Inr (getScene u)
      | OtherTruthy \<Rightarrow> Inl TypeError)"

definition getCurrentSceneName :: "world \<Rightarrow> string option" where
  "getCurrentSceneName w = currentSceneName w"


paragraph \<open>Operations\<close>

text \<open>\<^verbatim>\<open>unit.init(this.cameraManager, this.lightsManager, this.modelLoader)\<close> on a reference.\<close>

definition initUnit :: "env \<Rightarrow> nat \<Rightarrow> world \<Rightarrow> outcome" where
  "initUnit e i w =
     (case units w i of
        None \<Rightarrow> (Some TypeError, w)
      | Some u \<Rightarrow>
          (case unit_init (lightsManager w) e (nextObject w) u of
             (u', c, cs) \<Rightarrow>
               (None, w\<lparr>units := (units w)(i \<mapsto> u'), nextObject := c, calls := calls w @ cs\<rparr>)))"

definition register :: "string \<Rightarrow> sceneClass \<Rightarrow> world \<Rightarrow> nat \<times> world" where
  "register n c w =
     (case newScene c w of (i, w') \<Rightarrow> (i, scenesSet n i w'))"

definition initializeScenes :: "env \<Rightarrow> world \<Rightarrow> outcome" where
  "initializeScenes e w =
     rethrow ''Failed to initialize scenes:''
       (case register ''scene1'' Scene1 w of
          (i1, w1) \<Rightarrow>
            andThen (initUnit e i1 w1)
              (\<lambda>w2. case register ''scene2'' Scene2 w2 of (i2, w3) \<Rightarrow> initUnit e i2 w3))"

definition applyCameraSettings :: "string \<Rightarrow> world \<Rightarrow> world" where
  "applyCameraSettings n w =
     (if \<not> cameraManager w then w
      else if n = ''scene1'' then w\<lparr>calls := calls w @ [SetPosition 0 5 10, SetTarget 0 0 0]\<rparr>
      else if n = ''scene2'' then w\<lparr>calls := calls w @ [SetPosition 5 8 15, SetTarget 0 2 0]\<rparr>
      else w)"

definition applyLightingSettings :: "string \<Rightarrow> world \<Rightarrow> world" where
  "applyLightingSettings n w =
     (if \<not> lightsManager w then w
      else if n = ''scene1'' then w\<lparr>calls := calls w @ [ApplyPreset ''daylight'']\<rparr>
      else if n = ''scene2'' then w\<lparr>calls := calls w @ [ApplyPreset ''night'']\<rparr>
      else w)"

text \<open>
  \<^verbatim>\<open>performSceneTransition\<close> first calls \<^verbatim>\<open>getCurrentScene()\<close> (whose result it does not
  use), then \<^verbatim>\<open>this.scenes[newSceneName].getScene()\<close>.
\<close>

definition performSceneTransition :: "string \<Rightarrow> world \<Rightarrow> outcome" where
  "performSceneTransition n w =
     (case getCurrentScene w of
        Inl err \<Rightarrow> (Some err, w)
      | Inr currentScene \<Rightarrow>
          (case scenesGet w n of
             UnitObject i u \<Rightarrow>
               (case getScene u of
                  None \<Rightarrow> (Some (Error (''Scene '' @ quote n @ '' not properly initialized'')), w)
                | Some g \<Rightarrow> (None, applyLightingSettings n (applyCameraSettings n w)))
           | _ \<Rightarrow> (Some TypeError, w)))"

definition switchScene :: "string \<Rightarrow> world \<Rightarrow> outcome" where
  "switchScene n w =
     rethrow (''Failed to switch to scene '' @ quote n @ '':'')
       (if scenesGet w n = Falsy then (Some (Error (''Scene '' @ quote n @ '' not found'')), w)
        else if currentSceneName w = Some n then (None, w)
        else andThen (performSceneTransition n w)
               (\<lambda>w'. (None, w'\<lparr>currentSceneName := Some n\<rparr>)))"

definition init :: "bool \<Rightarrow> bool \<Rightarrow> bool \<Rightarrow> env \<Rightarrow> world \<Rightarrow> outcome" where
  "init cm lm ml e w =
     rethrow ''Failed to initialize Scene Manager:''
       (andThen (initializeScenes e (w\<lparr>cameraManager := cm, lightsManager := lm, modelLoader := ml\<rparr>))
          (\<lambda>w1. andThen (switchScene ''scene1'' w1)
             (\<lambda>w2. (None, w2\<lparr>mgrInitialized := True\<rparr>))))"

definition setUnit :: "nat \<Rightarrow> sceneUnit \<Rightarrow> world \<Rightarrow> world" where
  "setUnit i u w = w\<lparr>units := (units w)(i \<mapsto> u)\<rparr>"

definition loadModelIntoCurrentScene :: "string \<Rightarrow> world \<Rightarrow> outcome" where
  "loadModelIntoCurrentScene mt w =
     rethrow (''Failed to load model '' @ quote mt @ '' into current scene:'')
       (case currentValue w of
          Falsy \<Rightarrow> (Some (Error ''No active scene to load model into''), w)
        | UnitObject i u \<Rightarrow>
            (case loadModel (nextObject w) mt u of
               (r, u', c, out) \<Rightarrow>
                 (r, (setUnit i u' w)\<lparr>nextObject := c, console := console w @ out\<rparr>))
        | OtherTruthy \<Rightarrow> (Some TypeError, w))"

definition removeModelFromCurrentScene :: "string \<Rightarrow> world \<Rightarrow> outcome" where
  "removeModelFromCurrentScene mt w =
     (case currentValue w of
        Falsy \<Rightarrow> (None, warn ''No active scene to remove model from'' w)
      | UnitObject i u \<Rightarrow> (case removeModel mt u of (r, u') \<Rightarrow> (r, setUnit i u' w))
      | OtherTruthy \<Rightarrow> (Some TypeError, w))"

definition clearCurrentSceneModels :: "world \<Rightarrow> outcome" where
  "clearCurrentSceneModels w =
     (case currentValue w of
        Falsy \<Rightarrow> (None, warn ''No active scene to clear models from'' w)
      | UnitObject i u \<Rightarrow> (case clearModels u of (r, u') \<Rightarrow> (r, setUnit i u' w))
      | OtherTruthy \<Rightarrow> (Some TypeError, w))"

text \<open>
  \<^verbatim>\<open>update(deltaTime)\<close> run when the clock reads \<open>now\<close>. The unit's \<^verbatim>\<open>update\<close> is called
  only \<^verbatim>\<open>if (currentScene && typeof currentScene.update === 'function')\<close>.
\<close>

definition update :: "env \<Rightarrow> real \<Rightarrow> real \<Rightarrow> world \<Rightarrow> outcome" where
  "update e deltaTime now w =
     (if \<not> mgrInitialized w then (None, w)
      else case currentValue w of
             UnitObject i u \<Rightarrow> (case unit_update e now u of (r, u') \<Rightarrow> (r, setUnit i u' w))
           | _ \<Rightarrow> (None, w))"

text \<open>
  \<^verbatim>\<open>removeScene\<close>: \<^verbatim>\<open>dispose()\<close> is called only
  \<^verbatim>\<open>if (scene && typeof scene.dispose === 'function')\<close>, that is on a scene unit.
\<close>

definition removeScene :: "string \<Rightarrow> world \<Rightarrow> outcome" where
  "removeScene n w =
     (if scenesGet w n = Falsy then (None, warn (''Scene '' @ quote n @ '' not found'') w)
      else if currentSceneName w = Some n
      then (Some (Error (''Cannot remove active scene '' @ quote n)), w)
      else (None,
            scenesDelete n
              (case scenesGet w n of
                 UnitObject i u \<Rightarrow> setUnit i (unit_dispose u) w
               | _ \<Rightarrow> w)))"

text \<open>
  \<open>addScene n i e w\<close>: \<open>i\<close> is the reference passed as \<^verbatim>\<open>sceneClass\<close>, a Scene1 or
  Scene2 object, or \<^verbatim>\<open>undefined\<close> when it is not allocated.
\<close>

definition addScene :: "string \<Rightarrow> nat \<Rightarrow> env \<Rightarrow> world \<Rightarrow> outcome" where
  "addScene n i e w =
     rethrow (''Failed to add scene '' @ quote n @ '':'')
       (andThen
          (if scenesGet w n \<noteq> Falsy
           then removeScene n (warn (''Scene '' @ quote n @ '' already exists, replacing...'') w)
           else (None, w))
          (\<lambda>w1. let w2 = scenesSet n i w1
                in if cameraManager w2 \<and> lightsManager w2 \<and> modelLoader w2
                   then initUnit e i w2 else (None, w2)))"

text \<open>
  \<^verbatim>\<open>Object.keys(this.scenes).forEach(...)\<close> disposes the unit of every own property; the
  result does not depend on the order of the keys. \<^verbatim>\<open>this.scenes = {}\<close> is a new object,
  whose prototype is \<^verbatim>\<open>Object.prototype\<close>.
\<close>

definition disposeRef :: "nat \<Rightarrow> world \<Rightarrow> world" where
  "disposeRef i w = (case units w i of None \<Rightarrow> w | Some u \<Rightarrow> setUnit i (unit_dispose u) w)"

definition dispose :: "world \<Rightarrow> world" where
  "dispose w =
     (fold disposeRef (map snd (scenes w)) w)
       \<lparr>scenes := [], scenesProto := None, currentSceneName := None, mgrInitialized := False,
        cameraManager := False, lightsManager := False, modelLoader := False\<rparr>"

subsection \<open>Sequences of operations\<close>

datatype operation =
    Init bool bool bool env
  | SwitchScene string
  | AddScene string nat env
  | RemoveScene string
  | LoadModelIntoCurrentScene string
  | RemoveModelFromCurrentScene string
  | ClearCurrentSceneModels
  | Update env real real
  | Dispose
  | NewScene sceneClass

fun step :: "operation \<Rightarrow> world \<Rightarrow> outcome" where
  "step (Init cm lm ml e) w = init cm lm ml e w"
| "step (SwitchScene n) w = switchScene n w"
| "step (AddScene n i e) w = addScene n i e w"
| "step (RemoveScene n) w = removeScene n w"
| "step (LoadModelIntoCurrentScene mt) w = loadModelIntoCurrentScene mt w"
| "step (RemoveModelFromCurrentScene mt) w = removeModelFromCurrentScene mt w"
| "step ClearCurrentSceneModels w = clearCurrentSceneModels w"
| "step (Update e deltaTime now) w = update e deltaTime now w"
| "step Dispose w = (None, dispose w)"
| "step (NewScene c) w = (None, snd (newScene c w))"

text \<open>
  The caller catches what an operation throws and goes on with the state it left.
\<close>

fun run :: "operation list \<Rightarrow> world \<Rightarrow> world" where
  "run [] w = w"
| "run (x # xs) w = run xs (snd (step x w))"

subsection \<open>Notions used by the properties\<close>

text \<open>
  A unit is initialised when \<^verbatim>\<open>init\<close> has completed on it and it has not been disposed
  since: \<^verbatim>\<open>init\<close> sets both the flag and the scene, \<^verbatim>\<open>dispose\<close> clears both.
\<close>

definition initialized :: "sceneUnit \<Rightarrow> bool" where
  "initialized u = (isInitialized u \<and> getScene u \<noteq> None)"

text \<open>
  The invariant the manager is meant to keep: the active name, if set, is a key of the
  registry.
\<close>

definition activeNameRegistered :: "world \<Rightarrow> bool" where
  "activeNameRegistered w =
     (case currentSceneName w of None \<Rightarrow> True | Some n \<Rightarrow> n \<in> set (getAvailableScenes w))"

text \<open>
  What its guards do keep: the active name, if set, stands in the registry for a scene
  unit.
\<close>

definition activeIsUnit :: "world \<Rightarrow> bool" where
  "activeIsUnit w =
     (case currentSceneName w of None \<Rightarrow> True | Some n \<Rightarrow> lookupScene w n \<noteq> None)"

subsection \<open>Example states\<close>

definition demoEnv :: env where
  "demoEnv = \<lparr>random = (\<lambda>k. 1 / 2), lookAt = (\<lambda>p q. (0, 0, 0)), float32 = (\<lambda>x. x)\<rparr>"

text \<open>The state after \<^verbatim>\<open>new SceneManager().init(camera, lights, loader)\<close>.\<close>

definition demoWorld :: world where
  "demoWorld =
     \<lparr>scenes = [(''scene1'', 0), (''scene2'', 1)], scenesProto = None,
      currentSceneName = Some ''scene1'',
      mgrInitialized = True, cameraManager = True, lightsManager = True, modelLoader = True,
      units = [0 \<mapsto> fst (unit_init True demoEnv 0 (newUnit Scene1)),
               1 \<mapsto> fst (unit_init True demoEnv 8 (newUnit Scene2))],
      nextUnit = 2, nextObject = 19,
      calls = [AddToScene, AddToScene, ApplyPreset ''night'', SetPosition 0 5 10,
               SetTarget 0 0 0, ApplyPreset ''daylight''],
      console = []\<rparr>"

text \<open>
  One unit registered under two names, activated under the first and removed under the
  second.
\<close>

definition aliasOps :: "operation list" where
  "aliasOps =
     [Init True True True demoEnv, NewScene Scene1, AddScene ''a'' 2 demoEnv,
      AddScene ''b'' 2 demoEnv, SwitchScene ''a'', RemoveScene ''b'']"

definition aliasWorld :: world where
  "aliasWorld = run aliasOps newSceneManager"

text \<open>
  A unit passed to \<^verbatim>\<open>addScene\<close> under the name \<^verbatim>\<open>__proto__\<close> and then switched to.
\<close>

definition protoOps :: "operation list" where
  "protoOps =
     [Init True True True demoEnv, NewScene Scene1, AddScene ''__proto__'' 2 demoEnv,
      SwitchScene ''__proto__'']"

definition protoWorld :: world where
  "protoWorld = run protoOps newSceneManager"

text \<open>A unit registered with a manager that has no services: it is never initialised.\<close>

definition atticWorld :: world where
  "atticWorld =
     run [NewScene Scene2, AddScene ''attic'' 0 demoEnv, NewScene Scene1,
          AddScene ''cellar'' 1 demoEnv] newSceneManager"

text \<open>The unit of 'scene1' in \<open>demoWorld\<close>.\<close>

definition demoUnit1 :: sceneUnit where
  "demoUnit1 = fst (unit_init True demoEnv 0 (newUnit Scene1))"


definition cubeWorld :: world where
  "cubeWorld = snd (loadModelIntoCurrentScene ''cube'' demoWorld)"

text \<open>The caller has constructed a third unit, not yet registered.\<close>

definition visitorWorld :: world where
  "visitorWorld = snd (newScene Scene1 demoWorld)"

text \<open>A fresh manager (no services) and one unit constructed by the caller.\<close>

definition bareWorld :: world where
  "bareWorld = snd (newScene Scene2 newSceneManager)"

subsection \<open>The visual state of a unit\<close>

definition getX :: "vec3 \<Rightarrow> real" where
  "getX p = (case p of (x, y, z) \<Rightarrow> x)"

definition getZ :: "vec3 \<Rightarrow> real" where
  "getZ p = (case p of (x, y, z) \<Rightarrow> z)"










text \<open>
  What one call of \<^verbatim>\<open>update\<close> does to a single object and to a single child: the chain of
  look-ups and mutations of \<^verbatim>\<open>animateObjects\<close>, read object by object (shown equal to the
  model of the source in \<open>Scene1_animateObjects_map\<close> and \<open>Scene2_animateObjects_map\<close>).
\<close>

definition onTarget :: "string \<Rightarrow> node list \<Rightarrow> (object3d \<Rightarrow> object3d) \<Rightarrow> object3d \<Rightarrow> object3d" where
  "onTarget name g f ob = (if getObjectByName name g = Some (oid ob) then f ob else ob)"

definition Scene1_object :: "real \<Rightarrow> node list \<Rightarrow> object3d \<Rightarrow> object3d" where
  "Scene1_object now g ob =
     onTarget ''Cone'' g (\<lambda>ob. ob\<lparr>rotation := setZ (sin (now * 0.001) * 0.1) (rotation ob)\<rparr>)
      (onTarget ''Cylinder'' g (\<lambda>ob. ob\<lparr>rotation := addRotation (0, 0.015, 0) (rotation ob)\<rparr>)
        (onTarget ''Torus'' g (\<lambda>ob. ob\<lparr>rotation := addRotation (0.02, 0.01, 0) (rotation ob)\<rparr>)
          (onTarget ''Sphere'' g
             (\<lambda>ob. ob\<lparr>position := setY (1.2 + sin (now * 0.001 * 2) * 0.3) (position ob)\<rparr>)
            (onTarget ''Cube'' g
               (\<lambda>ob. ob\<lparr>rotation := addRotation (0.01, 0.01, 0) (rotation ob)\<rparr>) ob))))"

definition Scene2_object :: "real \<Rightarrow> node list \<Rightarrow> object3d \<Rightarrow> object3d" where
  "Scene2_object now g ob =
     onTarget ''CrystalFormation'' g (forEachChild (animateCrystal (now * 0.001)))
      (onTarget ''GlowingOrbs'' g (forEachChild (animateOrb (now * 0.001)))
        (onTarget ''FloatingPlatforms'' g (forEachChild (animatePlatform (now * 0.001)))
          (onTarget ''SpiralStructure'' g
             (\<lambda>ob. ob\<lparr>rotation := addRotation (0, 0.005, 0) (rotation ob)\<rparr>) ob)))"

definition particles_object :: "env \<Rightarrow> node list \<Rightarrow> object3d \<Rightarrow> object3d" where
  "particles_object e g ob =
     onTarget ''Particles'' g
       (\<lambda>ob. ob\<lparr>rotation := addRotation (0, 0.001, 0) (rotation ob),
                points := map (moveParticle e) (enumerate 0 (points ob))\<rparr>) ob"


section \<open>Properties\<close>

subsection \<open>Auxiliary facts\<close>

lemma rethrow_fields [simp]:
  "scenes (snd (rethrow m r)) = scenes (snd r)"
  "scenesProto (snd (rethrow m r)) = scenesProto (snd r)"
  "currentSceneName (snd (rethrow m r)) = currentSceneName (snd r)"
  "units (snd (rethrow m r)) = units (snd r)"
  "fst (rethrow m r) = fst r"
  by (cases r; cases "fst r"; simp add: rethrow_def)+

lemma applyCameraSettings_fields [simp]:
  "scenes (applyCameraSettings n w) = scenes w"
  "scenesProto (applyCameraSettings n w) = scenesProto w"
  "units (applyCameraSettings n w) = units w"
  "currentSceneName (applyCameraSettings n w) = currentSceneName w"
  "mgrInitialized (applyCameraSettings n w) = mgrInitialized w"
  "cameraManager (applyCameraSettings n w) = cameraManager w"
  "lightsManager (applyCameraSettings n w) = lightsManager w"
  "modelLoader (applyCameraSettings n w) = modelLoader w"
  "nextUnit (applyCameraSettings n w) = nextUnit w"
  "nextObject (applyCameraSettings n w) = nextObject w"
  "console (applyCameraSettings n w) = console w"
  "world.more (applyCameraSettings n w) = world.more w"
  by (simp_all add: applyCameraSettings_def)

lemma applyLightingSettings_fields [simp]:
  "scenes (applyLightingSettings n w) = scenes w"
  "scenesProto (applyLightingSettings n w) = scenesProto w"
  "units (applyLightingSettings n w) = units w"
  "currentSceneName (applyLightingSettings n w) = currentSceneName w"
  "mgrInitialized (applyLightingSettings n w) = mgrInitialized w"
  "cameraManager (applyLightingSettings n w) = cameraManager w"
  "lightsManager (applyLightingSettings n w) = lightsManager w"
  "modelLoader (applyLightingSettings n w) = modelLoader w"
  "nextUnit (applyLightingSettings n w) = nextUnit w"
  "nextObject (applyLightingSettings n w) = nextObject w"
  "console (applyLightingSettings n w) = console w"
  "world.more (applyLightingSettings n w) = world.more w"
  by (simp_all add: applyLightingSettings_def)

text \<open>A read of the registry depends on its own properties, its prototype and the store.\<close>

lemma scenesGet_cong:
  "scenes w' = scenes w \<Longrightarrow> scenesProto w' = scenesProto w \<Longrightarrow> units w' = units w \<Longrightarrow>
   scenesGet w' n = scenesGet w n"
  by (simp add: scenesGet_def protoUnit_def cong: option.case_cong)

lemma lookupScene_cong:
  "scenes w' = scenes w \<Longrightarrow> scenesProto w' = scenesProto w \<Longrightarrow> units w' = units w \<Longrightarrow>
   lookupScene w' n = lookupScene w n"
  by (simp add: lookupScene_def scenesGet_cong[of w' w])


lemma lookupScene_iff: "lookupScene w n = Some (i, u) \<longleftrightarrow> scenesGet w n = UnitObject i u"
  by (simp add: lookupScene_def split: jsvalue.splits)

lemma currentUnit_iff: "currentUnit w = Some (i, u) \<longleftrightarrow> currentValue w = UnitObject i u"
  by (simp add: currentUnit_def split: jsvalue.splits)

text \<open>Only an own property and \<^verbatim>\<open>__proto__\<close> can give a scene unit.\<close>

lemma unitProperty_no_unit: "unitProperty u n \<noteq> UnitObject i x"
  by (simp add: unitProperty_def)

lemma scenesGet_unit:
  "scenesGet w n = UnitObject i u \<longleftrightarrow>
     units w i = Some u
     \<and> (map_of (scenes w) n = Some i
        \<or> map_of (scenes w) n = None \<and> n = ''__proto__'' \<and> scenesProto w = Some i)"
  by (auto simp add: scenesGet_def protoUnit_def unitProperty_no_unit
      split: option.splits if_splits)

lemma keys_delete: "fst ` set (AList.delete k al) = fst ` set al - {k}"
  by (induct al) auto

lemma warn_fields [simp]:
  "scenes (warn m w) = scenes w"
  "scenesProto (warn m w) = scenesProto w"
  "currentSceneName (warn m w) = currentSceneName w"
  "units (warn m w) = units w"
  by (simp_all add: warn_def)

lemma setUnit_fields [simp]:
  "scenes (setUnit i u w) = scenes w"
  "scenesProto (setUnit i u w) = scenesProto w"
  "currentSceneName (setUnit i u w) = currentSceneName w"
  by (simp_all add: setUnit_def)

lemma scenesGet_warn [simp]: "scenesGet (warn msg w) n = scenesGet w n"
  by (rule scenesGet_cong) simp_all

lemma lookupScene_warn [simp]: "lookupScene (warn msg w) n = lookupScene w n"
  by (rule lookupScene_cong) simp_all

lemma unit_init_facts [simp]:
  "getScene (fst (unit_init lm e c u)) \<noteq> None"
  "isInitialized (fst (unit_init lm e c u))"
  "cls (fst (unit_init lm e c u)) = cls u"
  by (simp_all add: unit_init_def Scene1_init_def Scene2_init_def getScene_def
      addGridHelper_def addAxesHelper_def scene_add_def createSampleGeometry_def
      createGround_def createParticleSystem_def createAdvancedGeometry_def
      createGlowingOrbs_def createSpiralStructure_def createFloatingPlatforms_def
      createCrystalFormation_def createEnvironment_def createWalls_def put_def
      split: sceneClass.splits)

lemma unit_init_counter:
  "fst (snd (unit_init lm e c u)) = (case cls u of Scene1 \<Rightarrow> c + 8 | Scene2 \<Rightarrow> c + 11)"
  "snd (snd (unit_init lm e c u)) =
     (case cls u of Scene1 \<Rightarrow> (if lm then [AddToScene] else [])
                  | Scene2 \<Rightarrow> (if lm then [AddToScene, ApplyPreset ''night''] else []))"
  by (simp_all add: unit_init_def Scene1_init_def Scene2_init_def split: sceneClass.splits)

lemma unit_init_initialized: "initialized (fst (unit_init lm e c u))"
  by (simp add: initialized_def)

lemma getScene_unit_dispose [simp]: "getScene (unit_dispose u) = None"
  by (simp add: unit_dispose_def getScene_def split: option.splits sceneClass.splits)

text \<open>
  A switch to another scene unit whose scene is there, from a state whose active name does
  not stand for a value that is no scene unit.
\<close>

lemma switchScene_other:
  assumes "lookupScene w n = Some (i, u)" and "getScene u \<noteq> None"
    and "currentSceneName w \<noteq> Some n" and "currentValue w \<noteq> OtherTruthy"
  shows "switchScene n w =
    (None, (applyLightingSettings n (applyCameraSettings n w))\<lparr>currentSceneName := Some n\<rparr>)"
proof -
  from assms(1) have g: "scenesGet w n = UnitObject i u"
    by (simp add: lookupScene_iff)
  from assms(4) obtain s where s: "getCurrentScene w = Inr s"
    by (cases "currentValue w") (simp_all add: getCurrentScene_def)
  show ?thesis
    using assms(2,3) g s
    by (auto simp add: switchScene_def rethrow_def andThen_def performSceneTransition_def)
qed

lemma currentValue_active:
  "currentSceneName w = Some n \<Longrightarrow> lookupScene w n = Some (i, u) \<Longrightarrow>
   currentValue w \<noteq> OtherTruthy"
  by (simp add: currentValue_def lookupScene_iff)

text \<open>Evaluation of the manager's operations on explicit states.\<close>

lemmas mgr_eval = init_def initializeScenes_def register_def newScene_def
  initUnit_def rethrow_def andThen_def switchScene_def
  performSceneTransition_def getCurrentScene_def currentValue_def lookupScene_def
  scenesGet_def scenesSet_def scenesDelete_def protoUnit_def objectPrototypeNames_def
  newSceneManager_def case_prod_beta
  applyCameraSettings_def applyLightingSettings_def unit_init_counter newUnit_def
  addScene_def removeScene_def warn_def setUnit_def Let_def option.case_eq_if

lemma init_demo: "init True True True demoEnv newSceneManager = (None, demoWorld)"
  by (simp add: mgr_eval demoWorld_def)

lemma demoWorld_facts:
  "currentSceneName demoWorld = Some ''scene1''"
  "lookupScene demoWorld ''scene1'' = Some (0, fst (unit_init True demoEnv 0 (newUnit Scene1)))"
  "lookupScene demoWorld ''scene2'' = Some (1, fst (unit_init True demoEnv 8 (newUnit Scene2)))"
  "lookupScene demoWorld ''attic'' = None"
  "scenesGet demoWorld ''attic'' = Falsy"
  "scenesGet demoWorld ''toString'' = OtherTruthy"
  by (simp_all add: demoWorld_def lookupScene_def scenesGet_def protoUnit_def
      objectPrototypeNames_def)

subsection \<open>The active name stands for a scene unit\<close>

lemma resolves_iff:
  "lookupScene w n \<noteq> None \<longleftrightarrow>
     (\<exists>i. units w i \<noteq> None
        \<and> (map_of (scenes w) n = Some i
           \<or> map_of (scenes w) n = None \<and> n = ''__proto__'' \<and> scenesProto w = Some i))"
proof -
  have "lookupScene w n \<noteq> None \<longleftrightarrow> (\<exists>i u. scenesGet w n = UnitObject i u)"
    by (auto simp add: lookupScene_def split: jsvalue.splits)
  then show ?thesis
    by (auto simp add: scenesGet_unit)
qed

lemma activeIsUnit_iff:
  "activeIsUnit w \<longleftrightarrow> (\<forall>n. currentSceneName w = Some n \<longrightarrow> lookupScene w n \<noteq> None)"
  by (simp add: activeIsUnit_def split: option.splits)

text \<open>Units are never taken out of the store, so a name keeps standing for a unit.\<close>

lemma lookupScene_keeps:
  assumes "lookupScene w n \<noteq> None"
    and "map_of (scenes w') n = map_of (scenes w) n"
    and "scenesProto w' = scenesProto w \<or> n \<noteq> ''__proto__''"
    and "\<And>i. units w i \<noteq> None \<Longrightarrow> units w' i \<noteq> None"
  shows "lookupScene w' n \<noteq> None"
proof -
  from assms(1) obtain i where i: "units w i \<noteq> None"
    and k: "map_of (scenes w) n = Some i
           \<or> map_of (scenes w) n = None \<and> n = ''__proto__'' \<and> scenesProto w = Some i"
    unfolding resolves_iff by blast
  from assms(4)[OF i] have i': "units w' i \<noteq> None" .
  from k assms(2,3) have "map_of (scenes w') n = Some i
           \<or> map_of (scenes w') n = None \<and> n = ''__proto__'' \<and> scenesProto w' = Some i"
    by auto
  with i' show ?thesis
    unfolding resolves_iff by blast
qed

lemma activeIsUnit_keeps:
  assumes "activeIsUnit w" and "scenes w' = scenes w" and "scenesProto w' = scenesProto w"
    and "currentSceneName w' = currentSceneName w"
    and "\<And>i. units w i \<noteq> None \<Longrightarrow> units w' i \<noteq> None"
  shows "activeIsUnit w'"
  unfolding activeIsUnit_iff
proof (intro allI impI)
  fix n assume "currentSceneName w' = Some n"
  with assms(1,4) have "lookupScene w n \<noteq> None"
    by (simp add: activeIsUnit_iff)
  then show "lookupScene w' n \<noteq> None"
    by (rule lookupScene_keeps) (simp_all add: assms(2,3,5))
qed

lemma rethrow_activeIsUnit [simp]:
  "activeIsUnit (snd (rethrow m r)) = activeIsUnit (snd r)"
proof -
  have "lookupScene (snd (rethrow m r)) = lookupScene (snd r)"
    by (rule ext) (rule lookupScene_cong, simp_all)
  then show ?thesis
    by (simp add: activeIsUnit_iff)
qed

lemma initUnit_fields [simp]:
  "scenes (snd (initUnit e i w)) = scenes w"
  "scenesProto (snd (initUnit e i w)) = scenesProto w"
  "currentSceneName (snd (initUnit e i w)) = currentSceneName w"
  by (simp_all add: initUnit_def case_prod_beta split: option.splits)

lemma initUnit_units: "units w j \<noteq> None \<Longrightarrow> units (snd (initUnit e i w)) j \<noteq> None"
  by (simp add: initUnit_def case_prod_beta split: option.splits)

lemma initUnit_activeIsUnit: "activeIsUnit w \<Longrightarrow> activeIsUnit (snd (initUnit e i w))"
  by (erule activeIsUnit_keeps) (simp_all add: initUnit_units)

lemma model_ops_fields [simp]:
  "scenes (snd (loadModelIntoCurrentScene mt w)) = scenes w"
  "scenesProto (snd (loadModelIntoCurrentScene mt w)) = scenesProto w"
  "currentSceneName (snd (loadModelIntoCurrentScene mt w)) = currentSceneName w"
  "scenes (snd (removeModelFromCurrentScene mt w)) = scenes w"
  "scenesProto (snd (removeModelFromCurrentScene mt w)) = scenesProto w"
  "currentSceneName (snd (removeModelFromCurrentScene mt w)) = currentSceneName w"
  "scenes (snd (clearCurrentSceneModels w)) = scenes w"
  "scenesProto (snd (clearCurrentSceneModels w)) = scenesProto w"
  "currentSceneName (snd (clearCurrentSceneModels w)) = currentSceneName w"
  "scenes (snd (update e deltaTime now w)) = scenes w"
  "scenesProto (snd (update e deltaTime now w)) = scenesProto w"
  "currentSceneName (snd (update e deltaTime now w)) = currentSceneName w"
  by (simp_all add: loadModelIntoCurrentScene_def removeModelFromCurrentScene_def
      clearCurrentSceneModels_def update_def warn_def case_prod_beta split: jsvalue.splits)

lemma model_ops_units:
  assumes "units w j \<noteq> None"
  shows "units (snd (loadModelIntoCurrentScene mt w)) j \<noteq> None"
    and "units (snd (removeModelFromCurrentScene mt w)) j \<noteq> None"
    and "units (snd (clearCurrentSceneModels w)) j \<noteq> None"
    and "units (snd (update e deltaTime now w)) j \<noteq> None"
  using assms
  by (simp_all add: loadModelIntoCurrentScene_def removeModelFromCurrentScene_def
      clearCurrentSceneModels_def update_def warn_def setUnit_def case_prod_beta
      split: jsvalue.splits)

lemma switchScene_fields [simp]:
  "scenes (snd (switchScene n w)) = scenes w"
  "scenesProto (snd (switchScene n w)) = scenesProto w"
  "units (snd (switchScene n w)) = units w"
  by (simp_all add: switchScene_def andThen_def performSceneTransition_def case_prod_beta
      split: option.splits sum.splits jsvalue.splits)

lemma switchScene_current:
  "currentSceneName (snd (switchScene n w)) =
     (if fst (switchScene n w) = None then Some n else currentSceneName w)"
  by (simp add: switchScene_def andThen_def performSceneTransition_def case_prod_beta
      split: option.splits sum.splits jsvalue.splits)

lemma switchScene_success:
  assumes "fst (switchScene n w) = None" and "activeIsUnit w"
  shows "lookupScene w n \<noteq> None"
proof (cases "currentSceneName w = Some n")
  case True
  with assms(2) show ?thesis by (simp add: activeIsUnit_iff)
next
  case False
  with assms(1) show ?thesis
    by (auto simp add: switchScene_def andThen_def performSceneTransition_def lookupScene_def
        split: if_splits option.splits sum.splits jsvalue.splits)
qed

lemma switchScene_activeIsUnit:
  assumes "activeIsUnit w"
  shows "activeIsUnit (snd (switchScene n w))"
proof -
  have l: "lookupScene (snd (switchScene n w)) m = lookupScene w m" for m
    by (rule lookupScene_cong) simp_all
  show ?thesis
  proof (cases "fst (switchScene n w) = None")
    case True
    from switchScene_success[OF True assms] show ?thesis
      by (simp add: activeIsUnit_iff switchScene_current True l)
  next
    case False
    then have "currentSceneName (snd (switchScene n w)) = currentSceneName w"
      by (auto simp add: switchScene_current)
    with assms show ?thesis
      by (simp add: activeIsUnit_iff l)
  qed
qed

lemma removeScene_fields:
  "currentSceneName (snd (removeScene n w)) = currentSceneName w"
  "scenesProto (snd (removeScene n w)) = scenesProto w"
  "units w j \<noteq> None \<Longrightarrow> units (snd (removeScene n w)) j \<noteq> None"
  "m \<noteq> n \<Longrightarrow> map_of (scenes (snd (removeScene n w))) m = map_of (scenes w) m"
  "currentSceneName w = Some n \<Longrightarrow> scenes (snd (removeScene n w)) = scenes w"
  "fst (removeScene n w) = None \<Longrightarrow> scenesGet w n \<noteq> Falsy \<Longrightarrow> currentSceneName w \<noteq> Some n"
  by (auto simp add: removeScene_def scenesDelete_def setUnit_def warn_def AList.delete_conv'
      split: jsvalue.splits)

lemma removeScene_activeIsUnit:
  assumes "activeIsUnit w"
  shows "activeIsUnit (snd (removeScene n w))"
  unfolding activeIsUnit_iff
proof (intro allI impI)
  fix c assume "currentSceneName (snd (removeScene n w)) = Some c"
  then have c: "currentSceneName w = Some c"
    by (simp add: removeScene_fields(1))
  with assms have l: "lookupScene w c \<noteq> None"
    by (simp add: activeIsUnit_iff)
  have "map_of (scenes (snd (removeScene n w))) c = map_of (scenes w) c"
  proof (cases "c = n")
    case True
    with c show ?thesis by (simp add: removeScene_fields(5))
  next
    case False
    then show ?thesis by (rule removeScene_fields(4))
  qed
  with l show "lookupScene (snd (removeScene n w)) c \<noteq> None"
    by (rule lookupScene_keeps) (simp_all add: removeScene_fields(2,3))
qed

text \<open>An assignment under a name that is not the active one.\<close>

lemma scenesSet_activeIsUnit:
  assumes "activeIsUnit v" and "currentSceneName v \<noteq> Some n"
  shows "activeIsUnit (scenesSet n i v)"
  unfolding activeIsUnit_iff
proof (intro allI impI)
  fix c assume "currentSceneName (scenesSet n i v) = Some c"
  then have c: "currentSceneName v = Some c"
    by (simp add: scenesSet_def split: if_splits)
  with assms(2) have cn: "c \<noteq> n" by auto
  from c assms(1) have l: "lookupScene v c \<noteq> None"
    by (simp add: activeIsUnit_iff)
  show "lookupScene (scenesSet n i v) c \<noteq> None"
    using l
  proof (rule lookupScene_keeps)
    show "map_of (scenes (scenesSet n i v)) c = map_of (scenes v) c"
      using cn by (simp add: scenesSet_def AList.update_conv')
    show "scenesProto (scenesSet n i v) = scenesProto v \<or> c \<noteq> ''__proto__''"
      using cn by (auto simp add: scenesSet_def)
    show "units (scenesSet n i v) j \<noteq> None" if "units v j \<noteq> None" for j
      using that by (simp add: scenesSet_def)
  qed
qed

lemma addScene_activeIsUnit:
  assumes "activeIsUnit w"
  shows "activeIsUnit (snd (addScene n i e w))"
proof -
  let ?w' = "warn (''Scene '' @ quote n @ '' already exists, replacing...'') w"
  let ?r = "if scenesGet w n \<noteq> Falsy then removeScene n ?w' else (None, w)"
  let ?f = "\<lambda>v. let w2 = scenesSet n i v
                in if cameraManager w2 \<and> lightsManager w2 \<and> modelLoader w2
                   then initUnit e i w2 else (None, w2)"
  have w': "activeIsUnit ?w'"
    using assms by (rule activeIsUnit_keeps) simp_all
  have 1: "activeIsUnit (snd ?r)"
    using assms removeScene_activeIsUnit[OF w', of n] by simp
  have 2: "currentSceneName (snd ?r) \<noteq> Some n" if ok: "fst ?r = None"
  proof (cases "scenesGet w n = Falsy")
    case True
    then have "lookupScene w n = None" by (simp add: lookupScene_def)
    with assms True show ?thesis by (auto simp add: activeIsUnit_iff)
  next
    case False
    with ok have "fst (removeScene n ?w') = None" by simp
    from removeScene_fields(6)[OF this] False
    show ?thesis by (simp add: False removeScene_fields(1))
  qed
  have 3: "activeIsUnit (snd (?f v))" if "activeIsUnit v" "currentSceneName v \<noteq> Some n" for v
    using scenesSet_activeIsUnit[OF that, of i]
    by (simp add: Let_def initUnit_activeIsUnit)
  have "activeIsUnit (snd (andThen ?r ?f))"
  proof (cases "fst ?r")
    case None
    then have "andThen ?r ?f = ?f (snd ?r)"
      by (cases ?r) (simp add: andThen_def)
    with 3[OF 1 2[OF None]] show ?thesis by simp
  next
    case (Some err)
    then have "andThen ?r ?f = (Some err, snd ?r)"
      by (cases ?r) (simp add: andThen_def)
    with 1 show ?thesis by simp
  qed
  then show ?thesis
    by (simp add: addScene_def)
qed

lemma register_activeIsUnit:
  assumes "activeIsUnit w"
  shows "activeIsUnit (snd (register n c w))"
  unfolding activeIsUnit_iff
proof (intro allI impI)
  let ?w1 = "w\<lparr>units := (units w)(nextUnit w \<mapsto> newUnit c), nextUnit := Suc (nextUnit w)\<rparr>"
  have r: "snd (register n c w) = scenesSet n (nextUnit w) ?w1"
    by (simp add: register_def newScene_def)
  fix m assume "currentSceneName (snd (register n c w)) = Some m"
  then have m: "currentSceneName w = Some m"
    by (simp add: r scenesSet_def split: if_splits)
  with assms have l: "lookupScene w m \<noteq> None"
    by (simp add: activeIsUnit_iff)
  show "lookupScene (snd (register n c w)) m \<noteq> None"
  proof (cases "m = n")
    case True
    show ?thesis
      unfolding r resolves_iff True
      by (rule exI[of _ "nextUnit w"]) (auto simp add: scenesSet_def AList.update_conv')
  next
    case False
    show ?thesis
      using l unfolding r
    proof (rule lookupScene_keeps)
      show "map_of (scenes (scenesSet n (nextUnit w) ?w1)) m = map_of (scenes w) m"
        using False by (simp add: scenesSet_def AList.update_conv')
      show "scenesProto (scenesSet n (nextUnit w) ?w1) = scenesProto w \<or> m \<noteq> ''__proto__''"
        using False by (auto simp add: scenesSet_def)
      show "units (scenesSet n (nextUnit w) ?w1) j \<noteq> None" if "units w j \<noteq> None" for j
        using that by (simp add: scenesSet_def)
    qed
  qed
qed

lemma initializeScenes_activeIsUnit:
  assumes "activeIsUnit w"
  shows "activeIsUnit (snd (initializeScenes e w))"
proof -
  let ?w1 = "snd (register ''scene1'' Scene1 w)"
  let ?i1 = "fst (register ''scene1'' Scene1 w)"
  let ?f = "\<lambda>w2. case register ''scene2'' Scene2 w2 of (i2, w3) \<Rightarrow> initUnit e i2 w3"
  have 1: "activeIsUnit (snd (initUnit e ?i1 ?w1))"
    by (rule initUnit_activeIsUnit) (rule register_activeIsUnit[OF assms])
  have 2: "activeIsUnit (snd (?f v))" if "activeIsUnit v" for v
    using initUnit_activeIsUnit[OF register_activeIsUnit[OF that, of "''scene2''" Scene2]]
    by (simp add: case_prod_beta)
  have "activeIsUnit (snd (andThen (initUnit e ?i1 ?w1) ?f))"
  proof (cases "fst (initUnit e ?i1 ?w1)")
    case None
    then have "andThen (initUnit e ?i1 ?w1) ?f = ?f (snd (initUnit e ?i1 ?w1))"
      by (cases "initUnit e ?i1 ?w1") (simp add: andThen_def)
    with 2[OF 1] show ?thesis by simp
  next
    case (Some err)
    then have "andThen (initUnit e ?i1 ?w1) ?f = (Some err, snd (initUnit e ?i1 ?w1))"
      by (cases "initUnit e ?i1 ?w1") (simp add: andThen_def)
    with 1 show ?thesis by simp
  qed
  then show ?thesis
    by (simp add: initializeScenes_def case_prod_beta)
qed

lemma init_activeIsUnit:
  assumes "activeIsUnit w"
  shows "activeIsUnit (snd (init cm lm ml e w))"
proof -
  let ?w0 = "w\<lparr>cameraManager := cm, lightsManager := lm, modelLoader := ml\<rparr>"
  let ?g = "\<lambda>w2. (None :: error option, w2\<lparr>mgrInitialized := True\<rparr>)"
  let ?f = "\<lambda>w1. andThen (switchScene ''scene1'' w1) ?g"
  have 0: "activeIsUnit ?w0"
    using assms by (rule activeIsUnit_keeps) simp_all
  have 1: "activeIsUnit (snd (initializeScenes e ?w0))"
    by (rule initializeScenes_activeIsUnit[OF 0])
  have 3: "activeIsUnit (snd (?g v))" if "activeIsUnit v" for v
    using that by (simp, elim activeIsUnit_keeps) simp_all
  have 2: "activeIsUnit (snd (?f v))" if v: "activeIsUnit v" for v
  proof (cases "fst (switchScene ''scene1'' v)")
    case None
    then have "?f v = ?g (snd (switchScene ''scene1'' v))"
      by (cases "switchScene ''scene1'' v") (simp add: andThen_def)
    with 3[OF switchScene_activeIsUnit[OF v, of "''scene1''"]] show ?thesis by simp
  next
    case (Some err)
    then have "?f v = (Some err, snd (switchScene ''scene1'' v))"
      by (cases "switchScene ''scene1'' v") (simp add: andThen_def)
    with switchScene_activeIsUnit[OF v, of "''scene1''"] show ?thesis by simp
  qed
  have "activeIsUnit (snd (andThen (initializeScenes e ?w0) ?f))"
  proof (cases "fst (initializeScenes e ?w0)")
    case None
    then have "andThen (initializeScenes e ?w0) ?f = ?f (snd (initializeScenes e ?w0))"
      by (cases "initializeScenes e ?w0") (simp add: andThen_def)
    with 2[OF 1] show ?thesis by simp
  next
    case (Some err)
    then have "andThen (initializeScenes e ?w0) ?f = (Some err, snd (initializeScenes e ?w0))"
      by (cases "initializeScenes e ?w0") (simp add: andThen_def)
    with 1 show ?thesis by simp
  qed
  then show ?thesis
    by (simp add: init_def)
qed

lemma step_activeIsUnit: "activeIsUnit w \<Longrightarrow> activeIsUnit (snd (step x w))"
proof (cases x)
  case (Init cm lm ml e)
  assume "activeIsUnit w"
  then show ?thesis using Init by (simp add: init_activeIsUnit)
next
  case (SwitchScene n)
  assume "activeIsUnit w"
  then show ?thesis using SwitchScene by (simp add: switchScene_activeIsUnit)
next
  case (AddScene n i e)
  assume "activeIsUnit w"
  then show ?thesis using AddScene by (simp add: addScene_activeIsUnit)
next
  case (RemoveScene n)
  assume "activeIsUnit w"
  then show ?thesis using RemoveScene by (simp add: removeScene_activeIsUnit)
next
  case (LoadModelIntoCurrentScene mt)
  assume "activeIsUnit w"
  then show ?thesis
    unfolding LoadModelIntoCurrentScene step.simps
    by (rule activeIsUnit_keeps) (simp_all add: model_ops_units)
next
  case (RemoveModelFromCurrentScene mt)
  assume "activeIsUnit w"
  then show ?thesis
    unfolding RemoveModelFromCurrentScene step.simps
    by (rule activeIsUnit_keeps) (simp_all add: model_ops_units)
next
  case ClearCurrentSceneModels
  assume "activeIsUnit w"
  then show ?thesis
    unfolding ClearCurrentSceneModels step.simps
    by (rule activeIsUnit_keeps) (simp_all add: model_ops_units)
next
  case (Update e deltaTime now)
  assume "activeIsUnit w"
  then show ?thesis
    unfolding Update step.simps
    by (rule activeIsUnit_keeps) (simp_all add: model_ops_units)
next
  case Dispose
  then show ?thesis by (simp add: dispose_def activeIsUnit_def)
next
  case (NewScene c)
  assume "activeIsUnit w"
  then show ?thesis
    unfolding NewScene step.simps
    by (rule activeIsUnit_keeps) (simp_all add: newScene_def)
qed

lemma run_activeIsUnit: "activeIsUnit w \<Longrightarrow> activeIsUnit (run ops w)"
  by (induction ops arbitrary: w) (simp_all add: step_activeIsUnit)

text \<open>
  Starting from a fresh manager, after every sequence of operations, whatever each of them
  throws, the active name, if it is set, stands in the registry for a scene unit; so the
  guard for "no active scene" either holds or lets a scene unit through.
\<close>

lemma active_is_unit: "activeIsUnit (run ops newSceneManager)"
  by (rule run_activeIsUnit) (simp add: activeIsUnit_def newSceneManager_def)

lemma active_value_reachable: "currentValue (run ops newSceneManager) \<noteq> OtherTruthy"
proof -
  have "currentValue w \<noteq> OtherTruthy" if "activeIsUnit w" for w
    using that
    by (auto simp add: activeIsUnit_iff currentValue_def lookupScene_def
        split: option.splits jsvalue.splits)
  then show ?thesis
    using active_is_unit by blast
qed

subsection \<open>The active name and the keys of the registry\<close>

lemma protoWorld_eq:
  "protoWorld =
     snd (switchScene ''__proto__'' (snd (addScene ''__proto__'' 2 demoEnv visitorWorld)))"
  by (simp add: protoWorld_def protoOps_def init_demo visitorWorld_def)

lemma visitorWorld_eq:
  "visitorWorld =
     demoWorld\<lparr>units := (units demoWorld)(2 \<mapsto> newUnit Scene1), nextUnit := 3\<rparr>"
  by (simp add: visitorWorld_def newScene_def demoWorld_def)

text \<open>
  Claim C1 does not hold of the code: the registry is a plain object, and \<^verbatim>\<open>addScene\<close> and
  \<^verbatim>\<open>switchScene\<close> test \<^verbatim>\<open>this.scenes[name]\<close>, which is truthy for the name \<^verbatim>\<open>__proto__\<close>
  too. After \<^verbatim>\<open>init\<close>, \<^verbatim>\<open>addScene('__proto__', unit)\<close> succeeds: it creates no key, it makes
  the unit the prototype of the registry and initialises it. \<^verbatim>\<open>switchScene('__proto__')\<close>
  then succeeds as well, and the active name is \<^verbatim>\<open>__proto__\<close>, which is not a key of the
  registry: \<^verbatim>\<open>hasScene\<close>, which asks \<^verbatim>\<open>hasOwnProperty\<close>, denies it and
  \<^verbatim>\<open>getAvailableScenes\<close> does not list it. (What the guards do keep is
  \<open>active_is_unit\<close> above.)
\<close>

theorem active_name_not_registered:
  "fst (addScene ''__proto__'' 2 demoEnv visitorWorld) = None
   \<and> fst (switchScene ''__proto__'' (snd (addScene ''__proto__'' 2 demoEnv visitorWorld))) = None
   \<and> currentSceneName protoWorld = Some ''__proto__''
   \<and> hasScene protoWorld ''__proto__'' = Inr False
   \<and> getAvailableScenes protoWorld = [''scene1'', ''scene2'']
   \<and> \<not> activeNameRegistered protoWorld"
  by (simp add: protoWorld_eq visitorWorld_eq demoWorld_def mgr_eval hasScene_def
      getAvailableScenes_def activeNameRegistered_def)

subsection \<open>Model operations without an active scene\<close>

text \<open>
  Claim C2, as stated, fails: with no active scene \<^verbatim>\<open>loadModelIntoCurrentScene\<close> throws
  \<^verbatim>\<open>Error('No active scene to load model into')\<close> to its caller.
\<close>

theorem load_without_active_scene_throws:
  "currentUnit newSceneManager = None
   \<and> currentSceneName newSceneManager = None
   \<and> fst (loadModelIntoCurrentScene ''cube'' newSceneManager)
       = Some (Error ''No active scene to load model into'')"
  by (simp add: loadModelIntoCurrentScene_def currentUnit_def currentValue_def rethrow_def
      newSceneManager_def)

text \<open>
  Claim C2, amended. When no scene is active (the manager's guard
  \<^verbatim>\<open>!this.currentSceneName || !this.scenes[this.currentSceneName]\<close> holds:
  \<open>currentValue w = Falsy\<close>), \<^verbatim>\<open>removeModelFromCurrentScene\<close> and
  \<^verbatim>\<open>clearCurrentSceneModels\<close> log a warning and return normally, and
  \<^verbatim>\<open>loadModelIntoCurrentScene\<close> logs an error and throws it; each of the three leaves the
  manager and every scene unit unchanged (only the console grows).
\<close>

theorem no_active_scene_model_operations:
  assumes "currentValue w = Falsy"
  shows "removeModelFromCurrentScene mt w =
           (None, w\<lparr>console := console w @ [ConsoleWarn ''No active scene to remove model from'']\<rparr>)
       \<and> clearCurrentSceneModels w =
           (None, w\<lparr>console := console w @ [ConsoleWarn ''No active scene to clear models from'']\<rparr>)
       \<and> loadModelIntoCurrentScene mt w =
           (Some (Error ''No active scene to load model into''),
            w\<lparr>console := console w @
                 [ConsoleError (''Failed to load model '' @ quote mt @ '' into current scene:'')
                    (Error ''No active scene to load model into'')]\<rparr>)"
  using assms
  by (simp add: removeModelFromCurrentScene_def clearCurrentSceneModels_def
      loadModelIntoCurrentScene_def warn_def rethrow_def)

theorem no_active_scene_model_operations_witness:
  "currentValue atticWorld = Falsy
   \<and> currentUnit atticWorld = None
   \<and> hasScene atticWorld ''attic'' = Inr True
   \<and> fst (removeModelFromCurrentScene ''cube'' atticWorld) = None
   \<and> units (snd (removeModelFromCurrentScene ''cube'' atticWorld)) = units atticWorld
   \<and> fst (clearCurrentSceneModels atticWorld) = None
   \<and> fst (loadModelIntoCurrentScene ''cube'' atticWorld)
       = Some (Error ''No active scene to load model into'')"
proof -
  have c: "currentValue atticWorld = Falsy"
    by (simp add: atticWorld_def mgr_eval)
  have h: "hasScene atticWorld ''attic'' = Inr True"
    by (simp add: atticWorld_def hasScene_def mgr_eval)
  show ?thesis
    using no_active_scene_model_operations[OF c, of "''cube''"] c h
    by (simp add: currentUnit_def)
qed

subsection \<open>Switching scenes\<close>

text \<open>
  Claim C3. In a state with an active scene, \<^verbatim>\<open>switchScene\<close> with the active scene's name
  returns without error and leaves the whole state as it was: the active name, the
  registry, every unit (so every object and model count), and the record of calls to the
  camera and lighting services (no preset is applied again).
\<close>

theorem switchScene_active_noop:
  assumes "currentSceneName w = Some n" and "lookupScene w n \<noteq> None"
  shows "switchScene n w = (None, w)"
proof -
  from assms(2) have "scenesGet w n \<noteq> Falsy"
    by (auto simp add: lookupScene_def)
  with assms(1) show ?thesis
    by (simp add: switchScene_def rethrow_def)
qed

theorem switchScene_active_noop_witness:
  "currentSceneName demoWorld = Some ''scene1''
   \<and> lookupScene demoWorld ''scene1'' \<noteq> None
   \<and> switchScene ''scene1'' demoWorld = (None, demoWorld)"
proof -
  have a: "currentSceneName demoWorld = Some ''scene1''"
    by (rule demoWorld_facts)
  have b: "lookupScene demoWorld ''scene1'' \<noteq> None"
    by (simp add: demoWorld_facts)
  show ?thesis
    using switchScene_active_noop[OF a b] a b by simp
qed

text \<open>
  Claim C4. With two distinct registered, initialised scenes A and B and A active,
  \<^verbatim>\<open>switchScene(B)\<close> succeeds, makes B active and changes no unit; the following
  \<^verbatim>\<open>switchScene(A)\<close> succeeds and yields the initial state again except for the calls
  made to the camera and lighting services: A is active, and A's unit, with its objects
  and its loaded models, is the very same.
\<close>

theorem switch_there_and_back:
  assumes "A \<noteq> B" and "currentSceneName w = Some A"
    and "lookupScene w A = Some (iA, uA)" and "initialized uA"
    and "lookupScene w B = Some (iB, uB)" and "initialized uB"
  shows "fst (switchScene B w) = None
       \<and> currentSceneName (snd (switchScene B w)) = Some B
       \<and> units (snd (switchScene B w)) = units w
       \<and> fst (switchScene A (snd (switchScene B w))) = None
       \<and> currentSceneName (snd (switchScene A (snd (switchScene B w)))) = Some A
       \<and> (snd (switchScene A (snd (switchScene B w))))\<lparr>calls := calls w\<rparr> = w
       \<and> lookupScene (snd (switchScene A (snd (switchScene B w)))) A = Some (iA, uA)"
proof -
  let ?w1 = "(applyLightingSettings B (applyCameraSettings B w))\<lparr>currentSceneName := Some B\<rparr>"
  have v0: "currentValue w \<noteq> OtherTruthy"
    by (rule currentValue_active[OF assms(2,3)])
  have s1: "switchScene B w = (None, ?w1)"
    using assms v0 by (intro switchScene_other[where i=iB and u=uB]) (auto simp: initialized_def)
  have l1: "lookupScene ?w1 A = Some (iA, uA)"
    using assms(3) by (simp add: lookupScene_cong[of ?w1 w])
  have b1: "lookupScene ?w1 B = Some (iB, uB)"
    using assms(5) by (simp add: lookupScene_cong[of ?w1 w])
  have v1: "currentValue ?w1 \<noteq> OtherTruthy"
    by (rule currentValue_active[OF _ b1]) simp
  let ?w2 = "(applyLightingSettings A (applyCameraSettings A ?w1))\<lparr>currentSceneName := Some A\<rparr>"
  have s2: "switchScene A ?w1 = (None, ?w2)"
    using assms l1 v1 by (intro switchScene_other[where i=iA and u=uA]) (auto simp: initialized_def)
  have l2: "lookupScene ?w2 A = Some (iA, uA)"
    using assms(3) by (simp add: lookupScene_cong[of ?w2 w])
  have e: "?w2\<lparr>calls := calls w\<rparr> = w"
    using assms(2) by (intro world.equality) simp_all
  show ?thesis
    using s1 s2 l2 e by simp
qed

theorem switch_there_and_back_witness:
  "currentSceneName demoWorld = Some ''scene1''
   \<and> initialized (fst (unit_init True demoEnv 0 (newUnit Scene1)))
   \<and> initialized (fst (unit_init True demoEnv 8 (newUnit Scene2)))
   \<and> currentSceneName (snd (switchScene ''scene2'' demoWorld)) = Some ''scene2''
   \<and> fst (switchScene ''scene1'' (snd (switchScene ''scene2'' demoWorld))) = None
   \<and> lookupScene (snd (switchScene ''scene1'' (snd (switchScene ''scene2'' demoWorld)))) ''scene1''
       = Some (0, fst (unit_init True demoEnv 0 (newUnit Scene1)))"
proof -
  have d: "''scene1'' \<noteq> ''scene2''" by simp
  show ?thesis
    using switch_there_and_back[OF d demoWorld_facts(1) demoWorld_facts(2)
        unit_init_initialized demoWorld_facts(3) unit_init_initialized]
      demoWorld_facts(1) unit_init_initialized
    by simp
qed

text \<open>
  Claim C10, as stated, fails for the name of the active scene: the test for "already in
  this scene" comes before the null-scene check, so \<^verbatim>\<open>switchScene\<close> returns without an
  error. In \<open>aliasWorld\<close> the unit registered as 'a' and 'b' was disposed by
  \<^verbatim>\<open>removeScene('b')\<close> while it was active under the name 'a'.
\<close>

theorem switchScene_null_scene_active_returns:
  "hasScene aliasWorld ''a'' = Inr True
   \<and> map_option (\<lambda>r. getScene (snd r)) (lookupScene aliasWorld ''a'') = Some None
   \<and> fst (switchScene ''a'' aliasWorld) = None"
  by (simp add: aliasWorld_def aliasOps_def init_demo demoWorld_def mgr_eval hasScene_def)

text \<open>
  Claim C10, amended. For a registered scene name other than the active one whose unit's
  \<^verbatim>\<open>getScene()\<close> returns null, \<^verbatim>\<open>switchScene\<close> throws and is atomic: apart from the error
  logged on the console the state is unchanged, so the active name is the same and no
  camera or lighting preset is applied. The error is "not properly initialized"; only
  when the active name stands in the registry for a value that is not a scene unit, which
  no sequence of operations on a fresh manager brings about (\<open>active_value_reachable\<close>),
  does \<^verbatim>\<open>getCurrentScene()\<close>, which runs first, throw a \<^verbatim>\<open>TypeError\<close> instead.
\<close>

theorem switchScene_null_scene:
  assumes "lookupScene w n = Some (i, u)" and "getScene u = None"
    and "currentSceneName w \<noteq> Some n"
  shows "switchScene n w =
    (Some (if currentValue w = OtherTruthy then TypeError
           else Error (''Scene '' @ quote n @ '' not properly initialized'')),
     w\<lparr>console := console w @
          [ConsoleError (''Failed to switch to scene '' @ quote n @ '':'')
             (if currentValue w = OtherTruthy then TypeError
              else Error (''Scene '' @ quote n @ '' not properly initialized''))]\<rparr>)"
proof -
  from assms(1) have g: "scenesGet w n = UnitObject i u"
    by (simp add: lookupScene_iff)
  show ?thesis
    using assms(2,3) g
    by (cases "currentValue w")
       (simp_all add: switchScene_def rethrow_def andThen_def performSceneTransition_def
          getCurrentScene_def)
qed

theorem switchScene_null_scene_witness:
  "lookupScene atticWorld ''attic'' = Some (0, newUnit Scene2)
   \<and> getScene (newUnit Scene2) = None
   \<and> currentSceneName atticWorld \<noteq> Some ''attic''
   \<and> currentValue atticWorld \<noteq> OtherTruthy
   \<and> fst (switchScene ''attic'' atticWorld)
       = Some (Error (''Scene '' @ quote ''attic'' @ '' not properly initialized''))
   \<and> currentSceneName (snd (switchScene ''attic'' atticWorld)) = currentSceneName atticWorld
   \<and> calls (snd (switchScene ''attic'' atticWorld)) = calls atticWorld"
proof -
  have a: "lookupScene atticWorld ''attic'' = Some (0, newUnit Scene2)"
    by (simp add: atticWorld_def mgr_eval)
  have b: "getScene (newUnit Scene2) = None"
    by (simp add: getScene_def newUnit_def)
  have c: "currentSceneName atticWorld \<noteq> Some ''attic''"
    by (simp add: atticWorld_def mgr_eval)
  have d: "currentValue atticWorld \<noteq> OtherTruthy"
    by (simp add: atticWorld_def mgr_eval)
  show ?thesis
    using switchScene_null_scene[OF a b c] a b c d by simp
qed

subsection \<open>Removing a scene\<close>

text \<open>
  The branches of \<^verbatim>\<open>removeScene\<close>. With the name of the active scene it throws "Cannot
  remove active scene" and leaves the state, hence the registry and every unit,
  unchanged. With a name that is a key of the registry for a scene unit and is not active
  it disposes the unit and deletes the key. With a name for which the registry gives a
  falsy value it only logs a warning.
\<close>

lemma removeScene_branches:
  "(currentSceneName w = Some n \<and> scenesGet w n \<noteq> Falsy \<longrightarrow>
      removeScene n w = (Some (Error (''Cannot remove active scene '' @ quote n)), w))
 \<and> (map_of (scenes w) n = Some i \<and> units w i = Some u \<and> currentSceneName w \<noteq> Some n \<longrightarrow>
      removeScene n w =
        (None, w\<lparr>units := (units w)(i \<mapsto> unit_dispose u), scenes := AList.delete n (scenes w)\<rparr>)
      \<and> n \<notin> set (getAvailableScenes (snd (removeScene n w)))
      \<and> units (snd (removeScene n w)) i = Some (unit_dispose u)
      \<and> getScene (unit_dispose u) = None)
 \<and> (scenesGet w n = Falsy \<longrightarrow>
      removeScene n w =
        (None, w\<lparr>console := console w @ [ConsoleWarn (''Scene '' @ quote n @ '' not found'')]\<rparr>))"
proof (intro conjI impI)
  assume "currentSceneName w = Some n \<and> scenesGet w n \<noteq> Falsy"
  then show "removeScene n w = (Some (Error (''Cannot remove active scene '' @ quote n)), w)"
    by (simp add: removeScene_def)
next
  assume a: "map_of (scenes w) n = Some i \<and> units w i = Some u \<and> currentSceneName w \<noteq> Some n"
  then have g: "scenesGet w n = UnitObject i u"
    by (simp add: scenesGet_unit)
  with a show r: "removeScene n w =
        (None, w\<lparr>units := (units w)(i \<mapsto> unit_dispose u), scenes := AList.delete n (scenes w)\<rparr>)"
    by (simp add: removeScene_def scenesDelete_def setUnit_def)
  show "n \<notin> set (getAvailableScenes (snd (removeScene n w)))"
    unfolding r by (simp add: getAvailableScenes_def keys_delete)
  show "units (snd (removeScene n w)) i = Some (unit_dispose u)"
    unfolding r by simp
  show "getScene (unit_dispose u) = None"
    by simp
next
  assume "scenesGet w n = Falsy"
  then show "removeScene n w =
        (None, w\<lparr>console := console w @ [ConsoleWarn (''Scene '' @ quote n @ '' not found'')]\<rparr>)"
    by (simp add: removeScene_def warn_def)
qed

text \<open>
  Claim C5 does not hold of the code for an unknown name that the registry object
  inherits: \<^verbatim>\<open>removeScene('toString')\<close> finds the inherited function truthy, so it skips
  the "not found" warning, disposes nothing (the function has no \<^verbatim>\<open>dispose\<close>), deletes
  nothing and returns normally, without a warning. For an unknown name that is not
  inherited, such as 'attic', the warning is logged. (And a unit added under the name
  \<^verbatim>\<open>__proto__\<close> is disposed by \<^verbatim>\<open>removeScene('__proto__')\<close> but not removed: the registry
  still gives it for that name.)
\<close>

theorem removeScene_inherited_name_no_warning:
  "hasScene demoWorld ''toString'' = Inr False
   \<and> lookupScene demoWorld ''toString'' = None
   \<and> removeScene ''toString'' demoWorld = (None, demoWorld)
   \<and> console (snd (removeScene ''toString'' demoWorld)) = console demoWorld
   \<and> hasScene demoWorld ''attic'' = Inr False
   \<and> console (snd (removeScene ''attic'' demoWorld))
       = console demoWorld @ [ConsoleWarn (''Scene '' @ quote ''attic'' @ '' not found'')]
   \<and> lookupScene (snd (addScene ''__proto__'' 2 demoEnv visitorWorld)) ''__proto__''
       = Some (2, fst (unit_init True demoEnv 19 (newUnit Scene1)))
   \<and> fst (removeScene ''__proto__'' (snd (addScene ''__proto__'' 2 demoEnv visitorWorld))) = None
   \<and> lookupScene
         (snd (removeScene ''__proto__'' (snd (addScene ''__proto__'' 2 demoEnv visitorWorld))))
         ''__proto__''
       = Some (2, unit_dispose (fst (unit_init True demoEnv 19 (newUnit Scene1))))"
  by (simp add: visitorWorld_eq demoWorld_def mgr_eval hasScene_def)

subsection \<open>Loading and removing a model\<close>








lemma loadModel_cube:
  assumes "scene u = Some g"
  shows "loadModel c ''cube'' u =
    (None,
     put ((mesh c (modelName (cls u) ''cube'') (modelPosition (cls u) (getModelCount u)) (0, 0, 0))
            \<lparr>isLoadedModel := True, modelType := Some ''cube''\<rparr>) u,
     c + 1, [])"
  using assms by (simp add: loadModel_def Let_def getModelCount_def)





lemma load_cube_current:
  assumes "currentUnit w = Some (i, u)" and "scene u = Some g"
  shows "loadModelIntoCurrentScene ''cube'' w =
    (None, (setUnit i (fst (snd (loadModel (nextObject w) ''cube'' u))) w)
             \<lparr>nextObject := nextObject w + 1\<rparr>)"
  using assms
  by (simp add: loadModelIntoCurrentScene_def rethrow_def loadModel_cube setUnit_def
      currentUnit_iff)




lemma demoUnit1_eq:
  "demoUnit1 =
     \<lparr>cls = Scene1,
      scene = Some [(0, ''Ground''), (1, ''Cube''), (2, ''Sphere''), (3, ''Cylinder''),
                    (4, ''Torus''), (5, ''Cone''), (6, ''AxesHelper''), (7, ''GridHelper'')],
      objects = [mesh 0 ''Ground'' (0, 0, 0) (- pi / 2, 0, 0),
                 mesh 1 ''Cube'' (- 3, 1, 0) (0, 0, 0),
                 mesh 2 ''Sphere'' (0, 1.2, 0) (0, 0, 0),
                 mesh 3 ''Cylinder'' (3, 1.5, 0) (0, 0, 0),
                 mesh 4 ''Torus'' (0, 2, - 3) (0, 0, 0),
                 mesh 5 ''Cone'' (- 3, 1.25, - 3) (0, 0, 0)],
      isInitialized = True, animationMixers = []\<rparr>"
  by (simp add: demoUnit1_def unit_init_def Scene1_init_def newUnit_def addGridHelper_def
      addAxesHelper_def createSampleGeometry_def createGround_def put_def scene_add_def
      mesh_def)

lemma demo_currentUnit: "currentUnit demoWorld = Some (0, demoUnit1)"
  by (simp add: currentUnit_iff currentValue_def demoWorld_facts(1)
      demoWorld_facts(2)[unfolded lookupScene_iff] demoUnit1_def)




lemma load_cube_demo: "loadModelIntoCurrentScene ''cube'' demoWorld = (None, cubeWorld)"
proof -
  obtain g where g: "scene demoUnit1 = Some g"
    by (simp add: demoUnit1_eq)
  have "fst (loadModelIntoCurrentScene ''cube'' demoWorld) = None"
    using load_cube_current[OF demo_currentUnit g] by simp
  then show ?thesis
    by (cases "loadModelIntoCurrentScene ''cube'' demoWorld") (simp add: cubeWorld_def)
qed





subsection \<open>Clearing the loaded models\<close>







subsection \<open>Adding a scene\<close>

lemma addScene_active:
  assumes "currentSceneName w = Some n" and "lookupScene w n \<noteq> None"
  shows "addScene n i e w =
    (Some (Error (''Cannot remove active scene '' @ quote n)),
     w\<lparr>console := console w @
          [ConsoleWarn (''Scene '' @ quote n @ '' already exists, replacing...''),
           ConsoleError (''Failed to add scene '' @ quote n @ '':'')
             (Error (''Cannot remove active scene '' @ quote n))]\<rparr>)"
proof -
  let ?w' = "warn (''Scene '' @ quote n @ '' already exists, replacing...'') w"
  from assms(2) have t: "scenesGet w n \<noteq> Falsy"
    by (auto simp add: lookupScene_def)
  have r: "removeScene n ?w' = (Some (Error (''Cannot remove active scene '' @ quote n)), ?w')"
    using assms(1) t by (simp add: removeScene_def)
  show ?thesis
    using t r by (simp add: addScene_def andThen_def rethrow_def warn_def)
qed

lemma initUnit_ok:
  "units w i = Some u \<Longrightarrow>
   initUnit e i w =
     (None, w\<lparr>units := (units w)(i \<mapsto> fst (unit_init (lightsManager w) e (nextObject w) u)),
              nextObject := fst (snd (unit_init (lightsManager w) e (nextObject w) u)),
              calls := calls w @ snd (snd (unit_init (lightsManager w) e (nextObject w) u))\<rparr>)"
  by (simp add: initUnit_def case_prod_beta)

text \<open>An assignment to a name other than \<^verbatim>\<open>__proto__\<close> creates or overwrites a key.\<close>

lemma scenesSet_key:
  "n \<noteq> ''__proto__'' \<Longrightarrow> scenesSet n i v = v\<lparr>scenes := AList.update n i (scenes v)\<rparr>"
  by (simp add: scenesSet_def)

text \<open>The second half of addScene: registration and initialisation.\<close>

lemma addScene_register:
  fixes v :: world and n :: string and i :: nat and e :: env
  defines "r \<equiv> (let w2 = scenesSet n i v
                 in if cameraManager w2 \<and> lightsManager w2 \<and> modelLoader w2
                    then initUnit e i w2 else (None, w2))"
  assumes x: "units v i = Some x" and np: "n \<noteq> ''__proto__''"
  shows "fst r = None"
    and "map_of (scenes (snd r)) n = Some i"
    and "j \<noteq> i \<Longrightarrow> units (snd r) j = units v j"
    and "cameraManager v \<and> lightsManager v \<and> modelLoader v \<Longrightarrow>
           \<exists>u'. units (snd r) i = Some u' \<and> initialized u'"
    and "\<not> (cameraManager v \<and> lightsManager v \<and> modelLoader v) \<Longrightarrow> units (snd r) i = Some x"
    and "m \<noteq> n \<Longrightarrow> map_of (scenes (snd r)) m = map_of (scenes v) m"
    and "scenesProto (snd r) = scenesProto v"
proof -
  let ?w2 = "v\<lparr>scenes := AList.update n i (scenes v)\<rparr>"
  have u2: "units ?w2 i = Some x" using x by simp
  note ok = initUnit_ok[OF u2, of e]
  note r = r_def[unfolded scenesSet_key[OF np] Let_def]
  show "fst r = None"
    unfolding r by (simp add: ok)
  show "map_of (scenes (snd r)) n = Some i"
    unfolding r by (simp add: ok AList.update_conv')
  show "j \<noteq> i \<Longrightarrow> units (snd r) j = units v j"
    unfolding r by (simp add: ok)
  show "cameraManager v \<and> lightsManager v \<and> modelLoader v \<Longrightarrow>
           \<exists>u'. units (snd r) i = Some u' \<and> initialized u'"
    unfolding r by (simp add: ok unit_init_initialized)
  show "\<not> (cameraManager v \<and> lightsManager v \<and> modelLoader v) \<Longrightarrow> units (snd r) i = Some x"
    unfolding r using x by auto
  show "m \<noteq> n \<Longrightarrow> map_of (scenes (snd r)) m = map_of (scenes v) m"
    unfolding r by (simp add: ok AList.update_conv')
  show "scenesProto (snd r) = scenesProto v"
    unfolding r by (simp add: ok)
qed

lemma addScene_inactive:
  fixes w :: world and n :: string and i :: nat and e :: env
  defines "w' \<equiv> snd (addScene n i e w)"
  assumes na: "currentSceneName w \<noteq> Some n" and u: "units w i = Some u"
    and np: "n \<noteq> ''__proto__''"
  shows "fst (addScene n i e w) = None"
    and "map_of (scenes w') n = Some i"
    and "lookupScene w n = Some (j, old) \<Longrightarrow> j \<noteq> i \<Longrightarrow> units w' j = Some (unit_dispose old)"
    and "cameraManager w \<and> lightsManager w \<and> modelLoader w \<Longrightarrow>
           \<exists>u'. lookupScene w' n = Some (i, u') \<and> initialized u'"
    and "\<not> (cameraManager w \<and> lightsManager w \<and> modelLoader w) \<Longrightarrow>
           lookupScene w' n =
             Some (i, if map_of (scenes w) n = Some i then unit_dispose u else u)"
    and "m \<noteq> n \<Longrightarrow> map_of (scenes w') m = map_of (scenes w) m"
    and "scenesProto w' = scenesProto w"
proof -
  let ?msg = "''Scene '' @ quote n @ '' already exists, replacing...''"
  let ?R = "\<lambda>v. (let w2 = scenesSet n i v
                 in if cameraManager w2 \<and> lightsManager w2 \<and> modelLoader w2
                    then initUnit e i w2 else (None, w2))"
  define w1 where "w1 =
     (case scenesGet w n of
        Falsy \<Rightarrow> w
      | UnitObject k x \<Rightarrow> scenesDelete n (setUnit k (unit_dispose x) (warn ?msg w))
      | OtherTruthy \<Rightarrow> scenesDelete n (warn ?msg w))"
  define x where "x = (if map_of (scenes w) n = Some i then unit_dispose u else u)"
  have first: "(if scenesGet w n \<noteq> Falsy then removeScene n (warn ?msg w) else (None, w))
                 = (None, w1)"
    using na by (cases "scenesGet w n") (simp_all add: w1_def removeScene_def)
  have own: "scenesGet w n = UnitObject k y \<longleftrightarrow> map_of (scenes w) n = Some k \<and> units w k = Some y"
    for k y
    using np by (auto simp add: scenesGet_unit)
  have x1: "units w1 i = Some x"
  proof (cases "scenesGet w n")
    case Falsy
    with own[of i u] u show ?thesis by (simp add: w1_def x_def)
  next
    case (UnitObject k y)
    with own[of k y] u show ?thesis
      by (auto simp add: w1_def x_def scenesDelete_def setUnit_def warn_def)
  next
    case OtherTruthy
    with own[of i u] u show ?thesis by (simp add: w1_def x_def scenesDelete_def warn_def)
  qed
  have sv: "cameraManager w1 = cameraManager w" "lightsManager w1 = lightsManager w"
      "modelLoader w1 = modelLoader w" "scenesProto w1 = scenesProto w"
    by (simp_all add: w1_def scenesDelete_def setUnit_def warn_def split: jsvalue.splits)
  have sc: "map_of (scenes w1) m = map_of (scenes w) m" if "m \<noteq> n" for m
    using that by (simp add: w1_def scenesDelete_def setUnit_def warn_def
        AList.delete_conv' split: jsvalue.splits)
  have ok: "fst (?R w1) = None"
    by (rule addScene_register(1)[OF x1 np])
  have eq: "addScene n i e w = ?R w1"
    unfolding addScene_def first
    using ok by (cases "?R w1") (simp add: andThen_def rethrow_def)
  have w': "w' = snd (?R w1)"
    by (simp add: w'_def eq)
  have unit: "lookupScene w' n = Some (i, y)" if "units w' i = Some y" for y
    using that addScene_register(2)[OF x1 np, of e]
    unfolding w' by (simp add: lookupScene_iff scenesGet_unit)
  show "fst (addScene n i e w) = None"
    using ok eq by simp
  show "map_of (scenes w') n = Some i"
    unfolding w' by (rule addScene_register(2)[OF x1 np])
  show "units w' j = Some (unit_dispose old)" if "lookupScene w n = Some (j, old)" "j \<noteq> i"
  proof -
    have "units w' j = units w1 j"
      unfolding w' using that(2) by (rule addScene_register(3)[OF x1 np])
    also have "\<dots> = Some (unit_dispose old)"
      using that(1) by (simp add: lookupScene_iff w1_def scenesDelete_def setUnit_def)
    finally show ?thesis .
  qed
  show "\<exists>u'. lookupScene w' n = Some (i, u') \<and> initialized u'"
    if "cameraManager w \<and> lightsManager w \<and> modelLoader w"
  proof -
    from that have "cameraManager w1 \<and> lightsManager w1 \<and> modelLoader w1"
      by (simp add: sv)
    from addScene_register(4)[OF x1 np this, of e]
    obtain u' where "units w' i = Some u'" "initialized u'"
      unfolding w' by blast
    then show ?thesis
      using unit by blast
  qed
  show "lookupScene w' n = Some (i, if map_of (scenes w) n = Some i then unit_dispose u else u)"
    if "\<not> (cameraManager w \<and> lightsManager w \<and> modelLoader w)"
  proof -
    from that have "\<not> (cameraManager w1 \<and> lightsManager w1 \<and> modelLoader w1)"
      by (simp add: sv)
    from addScene_register(5)[OF x1 np this, of e]
    have "units w' i = Some x"
      unfolding w' .
    then show ?thesis
      using unit by (simp add: x_def)
  qed
  show "map_of (scenes w') m = map_of (scenes w) m" if "m \<noteq> n"
  proof -
    have "map_of (scenes w') m = map_of (scenes w1) m"
      unfolding w' using that by (rule addScene_register(6)[OF x1 np])
    then show ?thesis using sc[OF that] by simp
  qed
  show "scenesProto w' = scenesProto w"
    unfolding w' using addScene_register(7)[OF x1 np, of e] by (simp add: sv)
qed

lemma visitorWorld_facts:
  "currentSceneName visitorWorld = Some ''scene1''"
  "units visitorWorld 2 = Some (newUnit Scene1)"
  "units visitorWorld 0 = Some demoUnit1"
  "map_of (scenes visitorWorld) ''scene1'' = Some 0"
  "lookupScene visitorWorld ''scene1'' = Some (0, demoUnit1)"
  "lookupScene visitorWorld ''scene2'' = Some (1, fst (unit_init True demoEnv 8 (newUnit Scene2)))"
  "cameraManager visitorWorld \<and> lightsManager visitorWorld \<and> modelLoader visitorWorld"
  by (simp_all add: visitorWorld_def newScene_def demoWorld_def lookupScene_def scenesGet_def
      demoUnit1_def)

lemma bareWorld_facts:
  "currentSceneName bareWorld \<noteq> Some ''attic''"
  "units bareWorld 0 = Some (newUnit Scene2)"
  "\<not> (cameraManager bareWorld \<and> lightsManager bareWorld \<and> modelLoader bareWorld)"
  "map_of (scenes bareWorld) ''attic'' \<noteq> Some 0"
  by (simp_all add: bareWorld_def newScene_def newSceneManager_def)

text \<open>
  Claim C8, as stated, fails for the name of the active scene: \<^verbatim>\<open>addScene\<close> first calls
  \<^verbatim>\<open>removeScene\<close>, which refuses to remove the active scene, so \<^verbatim>\<open>addScene\<close> throws and the
  new unit is not registered; the old unit stays registered and is not disposed.
\<close>

theorem addScene_active_name_throws:
  "currentSceneName visitorWorld = Some ''scene1''
   \<and> units visitorWorld 2 = Some (newUnit Scene1)
   \<and> fst (addScene ''scene1'' 2 demoEnv visitorWorld)
       = Some (Error (''Cannot remove active scene '' @ quote ''scene1''))
   \<and> map_of (scenes (snd (addScene ''scene1'' 2 demoEnv visitorWorld))) ''scene1'' = Some 0
   \<and> units (snd (addScene ''scene1'' 2 demoEnv visitorWorld)) 0 = Some demoUnit1"
proof -
  have a: "lookupScene visitorWorld ''scene1'' \<noteq> None"
    by (simp add: visitorWorld_facts)
  show ?thesis
    by (simp add: addScene_active[OF visitorWorld_facts(1) a] visitorWorld_facts)
qed

text \<open>
  Claim C8, amended. For every scene name other than that of the currently active scene
  and other than \<^verbatim>\<open>__proto__\<close>, \<^verbatim>\<open>addScene(name, unit)\<close> succeeds and registers the unit
  under the name, as a key of the registry; a different unit previously registered under
  that name is disposed; the registrations of the other names and the prototype of the
  registry are untouched; the new unit is initialised at once when the camera, lighting
  and model-loader services are all available, and is left as it is otherwise (disposed,
  if it was itself the unit registered under that name). For the name of the active scene
  \<^verbatim>\<open>addScene\<close> throws "Cannot remove active scene" and changes nothing but the console.
  (Nothing is said here of the name \<^verbatim>\<open>__proto__\<close>, for which the assignment in
  \<^verbatim>\<open>addScene\<close> creates no key.)
\<close>

theorem addScene_cases:
  "(currentSceneName w \<noteq> Some n \<and> n \<noteq> ''__proto__'' \<and> units w i = Some u \<longrightarrow>
      fst (addScene n i e w) = None
    \<and> map_of (scenes (snd (addScene n i e w))) n = Some i
    \<and> n \<in> set (getAvailableScenes (snd (addScene n i e w)))
    \<and> (\<forall>j old. lookupScene w n = Some (j, old) \<and> j \<noteq> i \<longrightarrow>
          units (snd (addScene n i e w)) j = Some (unit_dispose old))
    \<and> (cameraManager w \<and> lightsManager w \<and> modelLoader w \<longrightarrow>
          (\<exists>u'. lookupScene (snd (addScene n i e w)) n = Some (i, u') \<and> initialized u'))
    \<and> (\<not> (cameraManager w \<and> lightsManager w \<and> modelLoader w) \<longrightarrow>
          lookupScene (snd (addScene n i e w)) n =
            Some (i, if map_of (scenes w) n = Some i then unit_dispose u else u))
    \<and> (\<forall>m. m \<noteq> n \<longrightarrow> map_of (scenes (snd (addScene n i e w))) m = map_of (scenes w) m)
    \<and> scenesProto (snd (addScene n i e w)) = scenesProto w)
 \<and> (currentSceneName w = Some n \<and> lookupScene w n \<noteq> None \<longrightarrow>
      addScene n i e w =
        (Some (Error (''Cannot remove active scene '' @ quote n)),
         w\<lparr>console := console w @
              [ConsoleWarn (''Scene '' @ quote n @ '' already exists, replacing...''),
               ConsoleError (''Failed to add scene '' @ quote n @ '':'')
                 (Error (''Cannot remove active scene '' @ quote n))]\<rparr>))"
proof (intro conjI impI allI)
  assume a: "currentSceneName w \<noteq> Some n \<and> n \<noteq> ''__proto__'' \<and> units w i = Some u"
  then have na: "currentSceneName w \<noteq> Some n" and np: "n \<noteq> ''__proto__''"
    and u: "units w i = Some u" by simp_all
  show "fst (addScene n i e w) = None"
    by (rule addScene_inactive(1)[OF na u np])
  show k: "map_of (scenes (snd (addScene n i e w))) n = Some i"
    by (rule addScene_inactive(2)[OF na u np])
  from map_of_SomeD[OF k] show "n \<in> set (getAvailableScenes (snd (addScene n i e w)))"
    by (auto simp add: getAvailableScenes_def intro: rev_image_eqI)
  show "units (snd (addScene n i e w)) j = Some (unit_dispose old)"
    if "lookupScene w n = Some (j, old) \<and> j \<noteq> i" for j old
    using that addScene_inactive(3)[where j=j and old=old and e=e, OF na u np] by simp
  show "\<exists>u'. lookupScene (snd (addScene n i e w)) n = Some (i, u') \<and> initialized u'"
    if "cameraManager w \<and> lightsManager w \<and> modelLoader w"
    using that by (rule addScene_inactive(4)[OF na u np])
  show "lookupScene (snd (addScene n i e w)) n =
          Some (i, if map_of (scenes w) n = Some i then unit_dispose u else u)"
    if "\<not> (cameraManager w \<and> lightsManager w \<and> modelLoader w)"
    using that by (rule addScene_inactive(5)[OF na u np])
  show "map_of (scenes (snd (addScene n i e w))) m = map_of (scenes w) m" if "m \<noteq> n" for m
    using that by (rule addScene_inactive(6)[OF na u np])
  show "scenesProto (snd (addScene n i e w)) = scenesProto w"
    by (rule addScene_inactive(7)[OF na u np])
next
  assume "currentSceneName w = Some n \<and> lookupScene w n \<noteq> None"
  then show "addScene n i e w =
        (Some (Error (''Cannot remove active scene '' @ quote n)),
         w\<lparr>console := console w @
              [ConsoleWarn (''Scene '' @ quote n @ '' already exists, replacing...''),
               ConsoleError (''Failed to add scene '' @ quote n @ '':'')
                 (Error (''Cannot remove active scene '' @ quote n))]\<rparr>)"
    by (intro addScene_active) simp_all
qed

theorem addScene_cases_witness:
  "(currentSceneName visitorWorld \<noteq> Some ''scene2'' \<and> ''scene2'' \<noteq> ''__proto__''
      \<and> units visitorWorld 2 = Some (newUnit Scene1)
      \<and> cameraManager visitorWorld \<and> lightsManager visitorWorld \<and> modelLoader visitorWorld
      \<and> fst (addScene ''scene2'' 2 demoEnv visitorWorld) = None
      \<and> map_of (scenes (snd (addScene ''scene2'' 2 demoEnv visitorWorld))) ''scene2'' = Some 2
      \<and> ''scene2'' \<in> set (getAvailableScenes (snd (addScene ''scene2'' 2 demoEnv visitorWorld)))
      \<and> units (snd (addScene ''scene2'' 2 demoEnv visitorWorld)) 1
          = Some (unit_dispose (fst (unit_init True demoEnv 8 (newUnit Scene2))))
      \<and> map_of (scenes (snd (addScene ''scene2'' 2 demoEnv visitorWorld))) ''scene1'' = Some 0
      \<and> (\<exists>u'. lookupScene (snd (addScene ''scene2'' 2 demoEnv visitorWorld)) ''scene2''
                 = Some (2, u') \<and> initialized u'))
 \<and> (currentSceneName bareWorld \<noteq> Some ''attic'' \<and> ''attic'' \<noteq> ''__proto__''
      \<and> units bareWorld 0 = Some (newUnit Scene2)
      \<and> \<not> (cameraManager bareWorld \<and> lightsManager bareWorld \<and> modelLoader bareWorld)
      \<and> lookupScene (snd (addScene ''attic'' 0 demoEnv bareWorld)) ''attic''
          = Some (0, newUnit Scene2))
 \<and> (currentSceneName visitorWorld = Some ''scene1''
      \<and> lookupScene visitorWorld ''scene1'' \<noteq> None
      \<and> fst (addScene ''scene1'' 2 demoEnv visitorWorld)
          = Some (Error (''Cannot remove active scene '' @ quote ''scene1'')))"
proof -
  have d: "currentSceneName visitorWorld \<noteq> Some ''scene2''"
    by (simp add: visitorWorld_facts)
  have k: "(1::nat) \<noteq> 2" "''scene1'' \<noteq> ''scene2''" by simp_all
  have p: "''scene2'' \<noteq> ''__proto__''" "''attic'' \<noteq> ''__proto__''" by simp_all
  note A = addScene_cases[of visitorWorld "''scene2''" 2 "newUnit Scene1" demoEnv]
  note B = addScene_cases[of bareWorld "''attic''" 0 "newUnit Scene2" demoEnv]
  note C = addScene_cases[of visitorWorld "''scene1''" 2 "newUnit Scene1" demoEnv]
  from A d p(1) visitorWorld_facts(2) have A': "fst (addScene ''scene2'' 2 demoEnv visitorWorld) = None
    \<and> map_of (scenes (snd (addScene ''scene2'' 2 demoEnv visitorWorld))) ''scene2'' = Some 2
    \<and> ''scene2'' \<in> set (getAvailableScenes (snd (addScene ''scene2'' 2 demoEnv visitorWorld)))
    \<and> (\<forall>j old. lookupScene visitorWorld ''scene2'' = Some (j, old) \<and> j \<noteq> 2 \<longrightarrow>
          units (snd (addScene ''scene2'' 2 demoEnv visitorWorld)) j = Some (unit_dispose old))
    \<and> (cameraManager visitorWorld \<and> lightsManager visitorWorld \<and> modelLoader visitorWorld \<longrightarrow>
          (\<exists>u'. lookupScene (snd (addScene ''scene2'' 2 demoEnv visitorWorld)) ''scene2''
                  = Some (2, u') \<and> initialized u'))
    \<and> (\<forall>m. m \<noteq> ''scene2'' \<longrightarrow>
          map_of (scenes (snd (addScene ''scene2'' 2 demoEnv visitorWorld))) m
            = map_of (scenes visitorWorld) m)"
    by blast
  from A' visitorWorld_facts(6) k(1)
  have A1: "units (snd (addScene ''scene2'' 2 demoEnv visitorWorld)) 1
          = Some (unit_dispose (fst (unit_init True demoEnv 8 (newUnit Scene2))))"
    by blast
  from A' k(2) visitorWorld_facts(4)
  have A2: "map_of (scenes (snd (addScene ''scene2'' 2 demoEnv visitorWorld))) ''scene1'' = Some 0"
    by simp
  from A' visitorWorld_facts(7)
  have A3: "\<exists>u'. lookupScene (snd (addScene ''scene2'' 2 demoEnv visitorWorld)) ''scene2''
                 = Some (2, u') \<and> initialized u'"
    by blast
  from B bareWorld_facts p(2)
  have B': "lookupScene (snd (addScene ''attic'' 0 demoEnv bareWorld)) ''attic''
          = Some (0, newUnit Scene2)"
    by simp
  have c: "lookupScene visitorWorld ''scene1'' \<noteq> None"
    by (simp add: visitorWorld_facts)
  from C visitorWorld_facts(1) c
  have C': "fst (addScene ''scene1'' 2 demoEnv visitorWorld)
          = Some (Error (''Cannot remove active scene '' @ quote ''scene1''))"
    by simp
  show ?thesis
    using d visitorWorld_facts(1,2,7) A' A1 A2 A3 bareWorld_facts(1,2,3) B' c C'
    by simp
qed

subsection \<open>Animation\<close>



lemma onTarget_oid [simp]: "(\<And>x. oid (f x) = oid x) \<Longrightarrow> oid (onTarget name g f ob) = oid ob"
  by (simp add: onTarget_def)

lemma onTarget_sel:
  "position (onTarget name g f ob) =
     (if getObjectByName name g = Some (oid ob) then position (f ob) else position ob)"
  "rotation (onTarget name g f ob) =
     (if getObjectByName name g = Some (oid ob) then rotation (f ob) else rotation ob)"
  "children (onTarget name g f ob) =
     (if getObjectByName name g = Some (oid ob) then children (f ob) else children ob)"
  "points (onTarget name g f ob) =
     (if getObjectByName name g = Some (oid ob) then points (f ob) else points ob)"
  by (simp_all add: onTarget_def)

lemma Scene1_object_oid [simp]: "oid (Scene1_object now g ob) = oid ob"
  by (simp add: Scene1_object_def)

lemma Scene1_object_children [simp]: "children (Scene1_object now g ob) = children ob"
  by (simp add: Scene1_object_def onTarget_sel)

lemma Scene1_object_points [simp]: "points (Scene1_object now g ob) = points ob"
  by (simp add: Scene1_object_def onTarget_sel)


lemma vec_sel [simp]:
  "getX (addRotation (dx, dy, dz) r) = getX r + dx"
  "getY (addRotation (dx, dy, dz) r) = getY r + dy"
  "getZ (addRotation (dx, dy, dz) r) = getZ r + dz"
  "getX (setZ v r) = getX r" "getY (setZ v r) = getY r" "getZ (setZ v r) = v"
  "getX (setY v r) = getX r" "getY (setY v r) = v" "getZ (setY v r) = getZ r"
  "setY v (setY v' r) = setY v r"
  by (simp_all add: getX_def getY_def getZ_def addRotation_def setY_def setZ_def case_prod_beta)





lemma forEachChild_sel [simp]:
  "oid (forEachChild f ob) = oid ob"
  "position (forEachChild f ob) = position ob"
  "rotation (forEachChild f ob) = rotation ob"
  "points (forEachChild f ob) = points ob"
  "children (forEachChild f ob) = map (\<lambda>(index, k). f index k) (enumerate 0 (children ob))"
  by (simp_all add: forEachChild_def)

lemma Scene2_object_oid [simp]: "oid (Scene2_object now g ob) = oid ob"
  by (simp add: Scene2_object_def)

lemma particles_object_oid [simp]: "oid (particles_object e g ob) = oid ob"
  by (simp add: particles_object_def)

lemma Scene2_object_sel [simp]:
  "position (Scene2_object now g ob) = position ob"
  "points (Scene2_object now g ob) = points ob"
  "rotation (Scene2_object now g ob) =
     (if getObjectByName ''SpiralStructure'' g = Some (oid ob)
      then addRotation (0, 0.005, 0) (rotation ob) else rotation ob)"
  by (simp_all add: Scene2_object_def onTarget_sel)

lemma particles_object_sel [simp]:
  "position (particles_object e g ob) = position ob"
  "children (particles_object e g ob) = children ob"
  "rotation (particles_object e g ob) =
     (if getObjectByName ''Particles'' g = Some (oid ob)
      then addRotation (0, 0.001, 0) (rotation ob) else rotation ob)"
  "points (particles_object e g ob) =
     (if getObjectByName ''Particles'' g = Some (oid ob)
      then map (moveParticle e) (enumerate 0 (points ob)) else points ob)"
  by (simp_all add: particles_object_def onTarget_sel)









lemma addRotation_zero [simp]: "addRotation (0, 0, 0) r = r"
  by (cases r) (simp add: addRotation_def)












end
